theory Spec2Isabelle
  imports Complex_Main
begin

section \<open>The MusiSync browser client\<close>

text \<open>
  A shallow embedding of the two copies of the client script: \<^verbatim>\<open>src/static/script.js\<close>
  (definitions under the source's own names) and \<^verbatim>\<open>src/unnamed/part_000\<close> (definitions
  with the prefix \<open>p0_\<close>).

  Conventions of the embedding.
  \<^item> A JavaScript string is a \<open>string\<close> (a list of code units); \<^verbatim>\<open>+\<close> on strings is \<open>@\<close>.
  \<^item> The numbers the server sends (durations, positions) are whole numbers of seconds, an
    \<open>int\<close>; on these the double arithmetic of the script is exact. Quotients are taken in
    \<open>rat\<close> before \<^verbatim>\<open>Math.round\<close> is applied.
  \<^item> The script runs as a classic (non-strict) script, so an assignment to an undeclared
    name writes a property of the global object. The page state records these globals.
  \<^item> An exception is a value: a function that can throw returns an \<open>error option\<close> beside
    the state it leaves behind.
  \<^item> The replies a handler awaits are arguments of its model, and each handler is run to
    its end: interleavings of handlers whose replies are pending at the same time are
    outside the model. Request headers and the styling of the page are left out.
  \<^item> The replies have the shape of the interface: a catalog maps identifiers to tracks
    with a name and a duration, a queue is a list of identifiers. An identifier is any
    string: \<^verbatim>\<open>musics[h]\<close> is read through the prototype chain, as the script reads it.
\<close>

subsection \<open>Numbers and strings\<close>

definition digit_char :: "nat \<Rightarrow> char" where
  "digit_char d = ''0123456789'' ! d"

text \<open>The decimal digits of a natural number, most significant first.\<close>

fun decimal :: "nat \<Rightarrow> string" where
  "decimal n = (if n < 10 then [digit_char n] else decimal (n div 10) @ [digit_char (n mod 10)])"

declare decimal.simps [simp del]

text \<open>\<^verbatim>\<open>Number.prototype.toString\<close> on an integer (below \<open>10^21\<close> in magnitude).\<close>

definition toString :: "int \<Rightarrow> string" where
  "toString i = (if i < 0 then ''-'' @ decimal (nat (- i)) else decimal (nat i))"

text \<open>\<^verbatim>\<open>Math.round\<close>: the nearest integer, a tie going up.\<close>

definition Math_round :: "rat \<Rightarrow> int" where
  "Math_round x = \<lfloor>x + 1 / 2\<rfloor>"

text \<open>The remainder operator \<^verbatim>\<open>%\<close> on integers: the result has the sign of the dividend.\<close>

definition js_rem :: "int \<Rightarrow> int \<Rightarrow> int" where
  "js_rem a b = sgn a * (\<bar>a\<bar> mod \<bar>b\<bar>)"

text \<open>\<^verbatim>\<open>String.prototype.padStart\<close> with a filler of one character.\<close>

definition padStart :: "string \<Rightarrow> nat \<Rightarrow> char \<Rightarrow> string" where
  "padStart s n c = replicate (n - length s) c @ s"

text \<open>\<^verbatim>\<open>hash.slice(0, 8)\<close>.\<close>

definition slice0 :: "string \<Rightarrow> nat \<Rightarrow> string" where
  "slice0 s n = take n s"

subsection \<open>Data model\<close>

text \<open>An entry of the catalog, \<^verbatim>\<open>{name, duration}\<close>.\<close>

record track =
  name :: string
  duration :: int

text \<open>The reply of \<^verbatim>\<open>/api/current\<close>; \<open>np_hash\<close> is \<open>None\<close> for \<^verbatim>\<open>null\<close>.\<close>

record current =
  np_hash :: "string option"
  paused :: bool
  position :: int
  np_duration :: int

text \<open>
  A child of \<^verbatim>\<open>#music-list\<close>: its markup and the identifier \<^verbatim>\<open>h\<close> its click handler
  closes over.
\<close>

record music_item =
  item_html :: string
  item_hash :: string

text \<open>
  A child of \<^verbatim>\<open>#queue-list\<close>: its markup, its \<^verbatim>\<open>data-index\<close> attribute, the class
  \<^verbatim>\<open>dragging\<close>, and the variables \<^verbatim>\<open>h\<close> and \<^verbatim>\<open>i\<close> its handlers close over.
\<close>

record queue_item =
  row_html :: string
  dataset_index :: string
  dragging :: bool
  row_hash :: string
  row_i :: nat

text \<open>
  The state of the page: the global \<^verbatim>\<open>musics\<close> (the parsed catalog as its entries, in
  the order of \<^verbatim>\<open>Object.entries\<close>), the two lists, the now-playing element, the title
  element, and the globals \<^verbatim>\<open>dur_sec\<close> and \<^verbatim>\<open>dur_min\<close> (\<open>None\<close> while undefined).
\<close>

datatype task = LoadMusics | RefreshQueue

record page =
  musics :: "(string \<times> track) list"
  music_list :: "music_item list"
  queue_list :: "queue_item list"
  now_playing :: string
  title :: string
  dur_sec :: "string option"
  dur_min :: "string option"
  dataTransfer :: string
  timers :: "(nat \<times> task) list"

text \<open>
  \<open>dataTransfer\<close> is the \<^verbatim>\<open>text/plain\<close> entry of the drag data store of the drag in
  progress (empty when there is none); \<open>timers\<close> are the pending one-shot timers that
  \<^verbatim>\<open>setTimeout\<close> registered, each with its delay in milliseconds and its callback.
\<close>

text \<open>
  \<open>TypeError\<close>: a property of \<^verbatim>\<open>undefined\<close> is read, or a \<^verbatim>\<open>const\<close> is assigned.
  \<open>Rejected\<close>: an awaited \<^verbatim>\<open>fetch\<close> or \<^verbatim>\<open>res.json()\<close> rejects.
\<close>

datatype error = TypeError | Rejected

text \<open>The argument of \<^verbatim>\<open>JSON.stringify\<close>, which becomes the body of a request.\<close>

datatype json = JNull | JBool bool | JNum int | JStr string | JObj "(string \<times> json) list"

datatype http_method = GET | POST | DELETE

record request =
  meth :: http_method
  path :: string
  body :: "json option"

text \<open>
  What running a piece of the script gives: the requests it issued, in order, the page it
  leaves, and the exception that ended it, if any.
\<close>

type_synonym outcome = "request list \<times> page \<times> error option"

subsection \<open>Reading the catalog\<close>

text \<open>
  The catalog is a plain object, so \<^verbatim>\<open>musics[h]\<close> is the catalog's own entry for \<open>h\<close> when
  it has one and otherwise the member of \<^verbatim>\<open>Object.prototype\<close> of that name, when there is
  one. The members, each with what \<^verbatim>\<open>.name\<close> reads on it: the functions carry their name,
  and \<^verbatim>\<open>__proto__\<close> reads the prototype object, which has no \<^verbatim>\<open>name\<close>. None of them has a
  \<^verbatim>\<open>duration\<close>.
\<close>

definition object_prototype :: "(string \<times> string option) list" where
  "object_prototype =
     [(''constructor'', Some ''Object''),
      (''__defineGetter__'', Some ''__defineGetter__''),
      (''__defineSetter__'', Some ''__defineSetter__''),
      (''hasOwnProperty'', Some ''hasOwnProperty''),
      (''__lookupGetter__'', Some ''__lookupGetter__''),
      (''__lookupSetter__'', Some ''__lookupSetter__''),
      (''isPrototypeOf'', Some ''isPrototypeOf''),
      (''propertyIsEnumerable'', Some ''propertyIsEnumerable''),
      (''toString'', Some ''toString''),
      (''valueOf'', Some ''valueOf''),
      (''toLocaleString'', Some ''toLocaleString''),
      (''__proto__'', None)]"

datatype member = Own track | Inherited "string option"

text \<open>\<^verbatim>\<open>musics[h]\<close>; \<open>None\<close> is \<^verbatim>\<open>undefined\<close>.\<close>

definition lookup :: "(string \<times> track) list \<Rightarrow> string \<Rightarrow> member option" where
  "lookup m h =
     (case map_of m h of
        Some t \<Rightarrow> Some (Own t)
      | None \<Rightarrow> (case map_of object_prototype h of
                   Some n \<Rightarrow> Some (Inherited n)
                 | None \<Rightarrow> None))"

text \<open>\<^verbatim>\<open>.name\<close> and \<^verbatim>\<open>.duration\<close> of what was read; \<open>None\<close> is \<^verbatim>\<open>undefined\<close>.\<close>

definition member_name :: "member \<Rightarrow> string option" where
  "member_name m = (case m of Own t \<Rightarrow> Some (name t) | Inherited n \<Rightarrow> n)"

definition member_duration :: "member \<Rightarrow> int option" where
  "member_duration m = (case m of Own t \<Rightarrow> Some (duration t) | Inherited n \<Rightarrow> None)"

text \<open>What a value that may be undefined contributes to a string concatenation.\<close>

definition str :: "string option \<Rightarrow> string" where
  "str v = (case v of None \<Rightarrow> ''undefined'' | Some s \<Rightarrow> s)"

subsection \<open>The formatter of script.js\<close>

text \<open>
  \<^verbatim>\<open>fancytime(s)\<close>. Neither \<^verbatim>\<open>dur_sec\<close> nor \<^verbatim>\<open>dur_min\<close> is declared, so both
  assignments write globals.
\<close>

definition fancytime :: "int \<Rightarrow> page \<Rightarrow> string \<times> page" where
  "fancytime s st =
     (let sec = padStart (toString (Math_round (of_int (js_rem s 60)))) 2 CHR ''0'';
          st1 = st\<lparr>dur_sec := Some sec\<rparr>;
          mins = padStart (toString (Math_round (of_int s / 40))) 2 CHR ''0'';
          st2 = st1\<lparr>dur_min := Some mins\<rparr>
      in (mins @ '':'' @ sec, st2))"

text \<open>\<^verbatim>\<open>fancyname(name, hash, duration)\<close>.\<close>

definition fancyname :: "string \<Rightarrow> string \<Rightarrow> int \<Rightarrow> page \<Rightarrow> string \<times> page" where
  "fancyname nm hash d st =
     (let (t, st1) = fancytime d st
      in (nm @ '' <b>&#x2039;'' @ slice0 hash 8 @ ''&#x203a;</b>&#x3014;<u>'' @ t @ ''</u>&#x3015;'', st1))"

text \<open>
  The same two functions on arguments that may be undefined. \<^verbatim>\<open>undefined % 60\<close> and
  \<^verbatim>\<open>undefined / 40\<close> are \<^verbatim>\<open>NaN\<close>, which \<^verbatim>\<open>Math.round\<close> keeps; its string "NaN" is longer
  than the pad. An undefined name is concatenated as "undefined".
\<close>

definition fancytime_of :: "int option \<Rightarrow> page \<Rightarrow> string \<times> page" where
  "fancytime_of s st =
     (case s of
        Some n \<Rightarrow> fancytime n st
      | None \<Rightarrow>
          (let sec = padStart ''NaN'' 2 CHR ''0'';
               st1 = st\<lparr>dur_sec := Some sec\<rparr>;
               mins = padStart ''NaN'' 2 CHR ''0'';
               st2 = st1\<lparr>dur_min := Some mins\<rparr>
           in (mins @ '':'' @ sec, st2)))"

definition fancyname_of :: "string option \<Rightarrow> string \<Rightarrow> int option \<Rightarrow> page \<Rightarrow> string \<times> page" where
  "fancyname_of nm hash d st =
     (let (t, st1) = fancytime_of d st
      in (str nm @ '' <b>&#x2039;'' @ slice0 hash 8 @ ''&#x203a;</b>&#x3014;<u>'' @ t @ ''</u>&#x3015;'', st1))"

subsection \<open>The formatter of part_000\<close>

definition p0_fancyname :: "string \<Rightarrow> string \<Rightarrow> int \<Rightarrow> page \<Rightarrow> string \<times> page" where
  "p0_fancyname nm hash d st =
     (let sec = padStart (toString (Math_round (of_int (js_rem d 60)))) 2 CHR ''0'';
          st1 = st\<lparr>dur_sec := Some sec\<rparr>;
          mins = padStart (toString (Math_round (of_int d / 40))) 2 CHR ''0'';
          st2 = st1\<lparr>dur_min := Some mins\<rparr>
      in (nm @ '' ('' @ slice0 hash 8 @ '') ['' @ mins @ '':'' @ sec @ '']'', st2))"

text \<open>
  The same function on arguments that may be undefined. The two assignments come first;
  \<^verbatim>\<open>hash.slice\<close> on an undefined \<^verbatim>\<open>hash\<close> then throws a TypeError, here the label \<open>None\<close>.
\<close>

definition p0_fancyname_of ::
  "string option \<Rightarrow> string option \<Rightarrow> int option \<Rightarrow> page \<Rightarrow> string option \<times> page" where
  "p0_fancyname_of nm hash d st =
     (let sec = (case d of
                   Some n \<Rightarrow> padStart (toString (Math_round (of_int (js_rem n 60)))) 2 CHR ''0''
                 | None \<Rightarrow> padStart ''NaN'' 2 CHR ''0'');
          st1 = st\<lparr>dur_sec := Some sec\<rparr>;
          mins = (case d of
                    Some n \<Rightarrow> padStart (toString (Math_round (of_int n / 40))) 2 CHR ''0''
                  | None \<Rightarrow> padStart ''NaN'' 2 CHR ''0'');
          st2 = st1\<lparr>dur_min := Some mins\<rparr>
      in case hash of
           None \<Rightarrow> (None, st2)
         | Some hs \<Rightarrow>
             (Some (str nm @ '' ('' @ slice0 hs 8 @ '') ['' @ mins @ '':'' @ sec @ '']''), st2))"

text \<open>The specification's formatter, for comparison: minutes are \<open>d div 60\<close>.\<close>

definition spec_duration :: "int \<Rightarrow> string" where
  "spec_duration d =
     padStart (toString (d div 60)) 2 CHR ''0'' @ '':'' @
     padStart (toString (Math_round (of_int (d mod 60)))) 2 CHR ''0''"

subsection \<open>parseInt\<close>

text \<open>
  \<^verbatim>\<open>parseInt(string)\<close> with no radix: leading white space is skipped, a sign is read, the
  prefix \<^verbatim>\<open>0x\<close> selects radix 16, and the longest prefix of digits is the value. \<open>None\<close>
  is \<^verbatim>\<open>NaN\<close>.
\<close>

definition is_space :: "char \<Rightarrow> bool" where
  "is_space c = (c \<in> set [CHR '' '', CHR 0x09, CHR 0x0A, CHR 0x0B, CHR 0x0C, CHR 0x0D, CHR 0xA0])"

definition digit_of :: "nat \<Rightarrow> char \<Rightarrow> nat option" where
  "digit_of radix c =
     (let k = of_char c :: nat;
          v = (if 48 \<le> k \<and> k \<le> 57 then Some (k - 48)
               else if 97 \<le> k \<and> k \<le> 122 then Some (k - 87)
               else if 65 \<le> k \<and> k \<le> 90 then Some (k - 55)
               else None)
      in case v of None \<Rightarrow> None | Some d \<Rightarrow> if d < radix then Some d else None)"

definition digits_value :: "nat \<Rightarrow> string \<Rightarrow> nat" where
  "digits_value radix ds = foldl (\<lambda>a c. a * radix + (case digit_of radix c of Some d \<Rightarrow> d | None \<Rightarrow> 0)) 0 ds"

definition parseInt :: "string \<Rightarrow> int option" where
  "parseInt s =
     (let s1 = dropWhile is_space s;
          neg = (take 1 s1 = ''-'');
          s2 = (if take 1 s1 = ''-'' \<or> take 1 s1 = ''+'' then drop 1 s1 else s1);
          hex = (take 2 s2 = ''0x'' \<or> take 2 s2 = ''0X'');
          radix = (if hex then 16 else 10);
          s3 = (if hex then drop 2 s2 else s2);
          z = takeWhile (\<lambda>c. digit_of radix c \<noteq> None) s3
      in if z = [] then None
         else Some ((if neg then - 1 else 1) * int (digits_value radix z)))"

text \<open>A number inside the argument of \<^verbatim>\<open>JSON.stringify\<close>: \<^verbatim>\<open>NaN\<close> is written \<^verbatim>\<open>null\<close>.\<close>

definition json_number :: "int option \<Rightarrow> json" where
  "json_number v = (case v of None \<Rightarrow> JNull | Some n \<Rightarrow> JNum n)"

subsection \<open>Requests\<close>

definition get :: "string \<Rightarrow> request" where
  "get p = \<lparr>meth = GET, path = p, body = None\<rparr>"

definition send :: "http_method \<Rightarrow> string \<Rightarrow> json \<Rightarrow> request" where
  "send m p v = \<lparr>meth = m, path = p, body = Some v\<rparr>"

definition post :: "string \<Rightarrow> request" where
  "post p = \<lparr>meth = POST, path = p, body = None\<rparr>"

text \<open>
  \<^verbatim>\<open>await fetch(req); refreshQueue();\<close>: the request is issued; when the awaited promise
  is fulfilled (\<open>ok\<close>) the refresh runs, and when it rejects nothing else happens.
\<close>

definition then_refresh :: "request \<Rightarrow> bool \<Rightarrow> (page \<Rightarrow> outcome) \<Rightarrow> page \<Rightarrow> outcome" where
  "then_refresh req ok refresh st =
     (if ok then (case refresh st of (rs, st1, e) \<Rightarrow> (req # rs, st1, e))
      else ([req], st, Some Rejected))"

subsection \<open>script.js: loading the catalog\<close>

text \<open>
  The loop of \<^verbatim>\<open>loadMusics\<close> over \<^verbatim>\<open>Object.entries(data)\<close>: one child per entry, its
  markup from \<^verbatim>\<open>fancyname\<close>.
\<close>

fun music_items :: "(string \<times> track) list \<Rightarrow> page \<Rightarrow> page" where
  "music_items [] st = st"
| "music_items ((h, music_info) # es) st =
     (let (label, st1) = fancyname (name music_info) h (duration music_info) st
      in music_items es (st1\<lparr>music_list := music_list st1 @ [\<lparr>item_html = label, item_hash = h\<rparr>]\<rparr>))"

text \<open>
  \<^verbatim>\<open>loadMusics()\<close>, given the parsed reply of \<^verbatim>\<open>/api/musics\<close> (\<open>None\<close>: the fetch or the
  parse rejects). The global \<^verbatim>\<open>musics\<close> is replaced after the loop.
\<close>

definition loadMusics :: "(string \<times> track) list option \<Rightarrow> page \<Rightarrow> outcome" where
  "loadMusics res st =
     (case res of
        None \<Rightarrow> ([get ''/api/musics''], st, Some Rejected)
      | Some data \<Rightarrow>
          ([get ''/api/musics''], (music_items data (st\<lparr>music_list := []\<rparr>))\<lparr>musics := data\<rparr>, None))"

subsection \<open>script.js: rendering the queue and the status\<close>

text \<open>
  The callback of \<^verbatim>\<open>data.forEach((h, i) => ...)\<close>, from index \<open>i\<close> on. \<^verbatim>\<open>musics[h].name\<close>
  throws when \<^verbatim>\<open>musics[h]\<close> is undefined, before \<^verbatim>\<open>fancyname\<close> is called and before the
  row is appended; the exception ends the loop.
\<close>

fun render_rows :: "string list \<Rightarrow> nat \<Rightarrow> page \<Rightarrow> page \<times> error option" where
  "render_rows [] i st = (st, None)"
| "render_rows (h # hs) i st =
     (case lookup (musics st) h of
        None \<Rightarrow> (st, Some TypeError)
      | Some m \<Rightarrow>
          (let (label, st1) = fancyname_of (member_name m) h (member_duration m) st;
               row = \<lparr>row_html = label, dataset_index = toString (int i), dragging = False,
                        row_hash = h, row_i = i\<rparr>
           in render_rows hs (Suc i) (st1\<lparr>queue_list := queue_list st1 @ [row]\<rparr>)))"

text \<open>The first part of \<^verbatim>\<open>refreshQueue\<close>, up to the end of the loop.\<close>

definition refresh_rows :: "string list option \<Rightarrow> page \<Rightarrow> outcome" where
  "refresh_rows res st =
     (case res of
        None \<Rightarrow> ([get ''/api/queue''], st, Some Rejected)
      | Some data \<Rightarrow>
          (case render_rows data 0 (st\<lparr>queue_list := []\<rparr>) of
             (st1, e) \<Rightarrow> ([get ''/api/queue''], st1, e)))"

text \<open>
  The second part, from \<^verbatim>\<open>fetch('/api/current')\<close> on. In the now-playing line
  \<^verbatim>\<open>fancytime(npData.position)\<close> is evaluated before \<^verbatim>\<open>musics[npData.hash].name\<close>.
\<close>

definition refresh_status :: "current option \<Rightarrow> page \<Rightarrow> outcome" where
  "refresh_status npRes st =
     (case npRes of
        None \<Rightarrow> ([get ''/api/current''], st, Some Rejected)
      | Some npData \<Rightarrow>
          (let pauseIcon = (if paused npData then ''&#x23F8;'' else ''&#x23F5;'');
               nothing = ([get ''/api/current''],
                          st\<lparr>now_playing := ''Nothing'', title := ''MusiSync''\<rparr>, None)
           in case np_hash npData of
                None \<Rightarrow> nothing
              | Some h \<Rightarrow>
                  if h = [] then nothing
                  else
                    (let (t, st1) = fancytime (position npData) st
                     in case lookup (musics st1) h of
                          None \<Rightarrow> ([get ''/api/current''], st1, Some TypeError)
                        | Some m \<Rightarrow>
                            (let (label, st2) =
                                   fancyname_of (member_name m) h (Some (np_duration npData)) st1;
                                 st3 = st2\<lparr>now_playing := pauseIcon @ '' '' @ t @ '' | '' @ label\<rparr>
                             in ([get ''/api/current''],
                                 st3\<lparr>title := ''MusiSync - '' @ str (member_name m)\<rparr>, None)))))"

definition refreshQueue :: "string list option \<Rightarrow> current option \<Rightarrow> page \<Rightarrow> outcome" where
  "refreshQueue res npRes st =
     (case refresh_rows res st of
        (rs, st1, Some e) \<Rightarrow> (rs, st1, Some e)
      | (rs, st1, None) \<Rightarrow>
          (case refresh_status npRes st1 of (rs2, st2, e) \<Rightarrow> (rs @ rs2, st2, e)))"

subsection \<open>The handlers, the same text in both copies\<close>

text \<open>
  \<^verbatim>\<open>atp_get()\<close>: a GET of \<^verbatim>\<open>/api/autoplay_get\<close>; the reply is logged and returned, and
  nothing of the page is written.
\<close>

definition atp_get :: "bool option \<Rightarrow> page \<Rightarrow> outcome" where
  "atp_get res st =
     ([get ''/api/autoplay_get''], st, (case res of None \<Rightarrow> Some Rejected | Some data \<Rightarrow> None))"

text \<open>
  The \<^verbatim>\<open>change\<close> listener of \<^verbatim>\<open>#autoplay-toggle\<close>: the fetch is not awaited and nothing
  follows it.
\<close>

definition on_change :: "bool \<Rightarrow> page \<Rightarrow> outcome" where
  "on_change checked st = ([send POST ''/api/autoplay_set'' (JBool checked)], st, None)"

text \<open>The \<^verbatim>\<open>onclick\<close> of a catalog entry, closed over \<^verbatim>\<open>h\<close>.\<close>

definition on_music_click :: "string \<Rightarrow> bool \<Rightarrow> (page \<Rightarrow> outcome) \<Rightarrow> page \<Rightarrow> outcome" where
  "on_music_click h ok refresh st =
     then_refresh (send POST ''/api/queue'' (JObj [(''hash'', JStr h)])) ok refresh st"

text \<open>The \<^verbatim>\<open>onclick\<close> of the Delete button of a queue row, closed over \<^verbatim>\<open>h\<close>.\<close>

definition on_delete_click :: "string \<Rightarrow> bool \<Rightarrow> (page \<Rightarrow> outcome) \<Rightarrow> page \<Rightarrow> outcome" where
  "on_delete_click h ok refresh st =
     then_refresh (send DELETE ''/api/queue'' (JObj [(''hash'', JStr h)])) ok refresh st"

text \<open>
  The drag listeners of the row at position \<open>k\<close> of the list. \<^verbatim>\<open>dragstart\<close> writes the
  closed-over \<^verbatim>\<open>i\<close> to the data store, as a string.
\<close>

definition on_dragstart :: "nat \<Rightarrow> page \<Rightarrow> page" where
  "on_dragstart k st =
     (let row = queue_list st ! k
      in st\<lparr>queue_list := (queue_list st)[k := row\<lparr>dragging := True\<rparr>],
            dataTransfer := toString (int (row_i row))\<rparr>)"

definition on_dragend :: "nat \<Rightarrow> page \<Rightarrow> page" where
  "on_dragend k st =
     (let row = queue_list st ! k
      in st\<lparr>queue_list := (queue_list st)[k := row\<lparr>dragging := False\<rparr>]\<rparr>)"

definition on_drop :: "nat \<Rightarrow> bool \<Rightarrow> (page \<Rightarrow> outcome) \<Rightarrow> page \<Rightarrow> outcome" where
  "on_drop k ok refresh st =
     (let from_index = parseInt (dataTransfer st);
          to_index = parseInt (dataset_index (queue_list st ! k))
      in then_refresh
           (send POST ''/api/queue/reorder''
              (JObj [(''from'', json_number from_index), (''to'', json_number to_index)]))
           ok refresh st)"

definition play :: "bool \<Rightarrow> (page \<Rightarrow> outcome) \<Rightarrow> page \<Rightarrow> outcome" where
  "play ok refresh st = then_refresh (post ''/api/play'') ok refresh st"

definition pause :: "bool \<Rightarrow> (page \<Rightarrow> outcome) \<Rightarrow> page \<Rightarrow> outcome" where
  "pause ok refresh st = then_refresh (post ''/api/pause'') ok refresh st"

subsection \<open>Timers and events\<close>

text \<open>
  \<^verbatim>\<open>setTimeout(callback, ms)\<close>. Both calls are made while the script is loaded, at time 0,
  so the delay is also the time at which the timer is due.
\<close>

definition setTimeout :: "task \<Rightarrow> nat \<Rightarrow> page \<Rightarrow> page" where
  "setTimeout callback ms st = st\<lparr>timers := timers st @ [(ms, callback)]\<rparr>"

text \<open>The pending timer that fires next: the least delay, the first registered on a tie.\<close>

definition next_timer :: "(nat \<times> task) list \<Rightarrow> (nat \<times> task) option" where
  "next_timer ts =
     (case ts of [] \<Rightarrow> None
      | t # r \<Rightarrow> Some (foldl (\<lambda>b x. if fst x < fst b then x else b) t r))"

text \<open>
  What the page can receive, each event with the replies its handler awaits: a timer
  coming due; a change of the autoplay toggle; a click on the catalog entry or on the
  Delete button at a position; the drag events of the row at a position; a drag that began
  outside the queue rows, with the text it carries; the Play and Pause controls.
\<close>

datatype event =
    Timer "(string \<times> track) list option" "string list option" "current option"
  | Change bool
  | ClickMusic nat bool "string list option" "current option"
  | ClickDelete nat bool "string list option" "current option"
  | DragStart nat
  | DragExternal string
  | DragEnd nat
  | Drop nat bool "string list option" "current option"
  | Play bool "string list option" "current option"
  | Pause bool "string list option" "current option"

text \<open>
  The dispatch of an event, over the copy's own \<^verbatim>\<open>loadMusics\<close> and \<^verbatim>\<open>refreshQueue\<close>.
  A timer that fires is removed: \<^verbatim>\<open>setTimeout\<close> timers are one-shot. An event at a
  position where there is no element cannot occur and does nothing.
\<close>

definition handle_with ::
  "((string \<times> track) list option \<Rightarrow> page \<Rightarrow> outcome) \<Rightarrow>
   (string list option \<Rightarrow> current option \<Rightarrow> page \<Rightarrow> outcome) \<Rightarrow> event \<Rightarrow> page \<Rightarrow> outcome" where
  "handle_with lm rq ev st =
     (case ev of
        Timer m q c \<Rightarrow>
          (case next_timer (timers st) of
             None \<Rightarrow> ([], st, None)
           | Some t \<Rightarrow>
               (case snd t of
                  LoadMusics \<Rightarrow> lm m (st\<lparr>timers := remove1 t (timers st)\<rparr>)
                | RefreshQueue \<Rightarrow> rq q c (st\<lparr>timers := remove1 t (timers st)\<rparr>)))
      | Change b \<Rightarrow> on_change b st
      | ClickMusic k ok q c \<Rightarrow>
          if k < length (music_list st)
          then on_music_click (item_hash (music_list st ! k)) ok (rq q c) st
          else ([], st, None)
      | ClickDelete k ok q c \<Rightarrow>
          if k < length (queue_list st)
          then on_delete_click (row_hash (queue_list st ! k)) ok (rq q c) st
          else ([], st, None)
      | DragStart k \<Rightarrow>
          if k < length (queue_list st) then ([], on_dragstart k st, None) else ([], st, None)
      | DragExternal text \<Rightarrow> ([], st\<lparr>dataTransfer := text\<rparr>, None)
      | DragEnd k \<Rightarrow>
          if k < length (queue_list st) then ([], on_dragend k st, None) else ([], st, None)
      | Drop k ok q c \<Rightarrow>
          if k < length (queue_list st) then on_drop k ok (rq q c) st else ([], st, None)
      | Play ok q c \<Rightarrow> play ok (rq q c) st
      | Pause ok q c \<Rightarrow> pause ok (rq q c) st)"


subsection \<open>script.js: the top level\<close>

definition handle :: "event \<Rightarrow> page \<Rightarrow> outcome" where
  "handle = handle_with loadMusics refreshQueue"

text \<open>
  The statements at the top level: \<^verbatim>\<open>loadMusics()\<close>, \<^verbatim>\<open>refreshQueue()\<close> and the two
  \<^verbatim>\<open>setTimeout\<close> calls. \<^verbatim>\<open>atp_get\<close> is declared and not called. The two refreshes are
  run in the order written, each to its end with the replies it awaits; a rejection of
  either is unhandled and stops nothing else.
\<close>

definition script ::
  "(string \<times> track) list option \<Rightarrow> string list option \<Rightarrow> current option \<Rightarrow> page \<Rightarrow> request list \<times> page" where
  "script m q c st =
     (case loadMusics m st of
        (rs1, st1, e1) \<Rightarrow>
          (case refreshQueue q c st1 of
             (rs2, st2, e2) \<Rightarrow>
               (rs1 @ rs2, setTimeout RefreshQueue 1000 (setTimeout LoadMusics 5000 st2))))"

text \<open>A sequence of events after that, with the requests issued on the way.\<close>

fun run :: "event list \<Rightarrow> page \<Rightarrow> request list \<times> page" where
  "run [] st = ([], st)"
| "run (ev # evs) st =
     (case handle ev st of
        (rs, st1, e) \<Rightarrow> (case run evs st1 of (rs2, st2) \<Rightarrow> (rs @ rs2, st2)))"



subsection \<open>part_000\<close>

fun p0_music_items :: "(string \<times> track) list \<Rightarrow> page \<Rightarrow> page" where
  "p0_music_items [] st = st"
| "p0_music_items ((h, music_info) # es) st =
     (let (label, st1) = p0_fancyname (name music_info) h (duration music_info) st
      in p0_music_items es (st1\<lparr>music_list := music_list st1 @ [\<lparr>item_html = label, item_hash = h\<rparr>]\<rparr>))"

definition p0_loadMusics :: "(string \<times> track) list option \<Rightarrow> page \<Rightarrow> outcome" where
  "p0_loadMusics res st =
     (case res of
        None \<Rightarrow> ([get ''/api/musics''], st, Some Rejected)
      | Some data \<Rightarrow>
          ([get ''/api/musics''], (p0_music_items data (st\<lparr>music_list := []\<rparr>))\<lparr>musics := data\<rparr>, None))"

fun p0_render_rows :: "string list \<Rightarrow> nat \<Rightarrow> page \<Rightarrow> page \<times> error option" where
  "p0_render_rows [] i st = (st, None)"
| "p0_render_rows (h # hs) i st =
     (case lookup (musics st) h of
        None \<Rightarrow> (st, Some TypeError)
      | Some m \<Rightarrow>
          (case p0_fancyname_of (member_name m) (Some h) (member_duration m) st of
             (None, st1) \<Rightarrow> (st1, Some TypeError)
           | (Some label, st1) \<Rightarrow>
               (let row = \<lparr>row_html = label, dataset_index = toString (int i), dragging = False,
                             row_hash = h, row_i = i\<rparr>
                in p0_render_rows hs (Suc i) (st1\<lparr>queue_list := queue_list st1 @ [row]\<rparr>))))"

definition p0_refresh_rows :: "string list option \<Rightarrow> page \<Rightarrow> outcome" where
  "p0_refresh_rows res st =
     (case res of
        None \<Rightarrow> ([get ''/api/queue''], st, Some Rejected)
      | Some data \<Rightarrow>
          (case p0_render_rows data 0 (st\<lparr>queue_list := []\<rparr>) of
             (st1, e) \<Rightarrow> ([get ''/api/queue''], st1, e)))"

text \<open>The property key that \<^verbatim>\<open>musics[npData.hash]\<close> reads: \<^verbatim>\<open>null\<close> is the key "null".\<close>

definition property_key :: "string option \<Rightarrow> string" where
  "property_key v = (case v of None \<Rightarrow> ''null'' | Some h \<Rightarrow> h)"

text \<open>
  The last statement of \<^verbatim>\<open>refreshQueue\<close> in part_000,
  \<^verbatim>\<open>title = "MusiSync - " + npData.hash ? musics[npData.hash].name : "Nothing"\<close>.
  The condition is the concatenation, a non-empty string, so the first branch is always
  taken: it throws when \<^verbatim>\<open>musics[npData.hash]\<close> is undefined; when it is defined, the
  assignment to the \<^verbatim>\<open>const\<close> binding \<^verbatim>\<open>title\<close> throws. The title element is never
  written.
\<close>

definition p0_set_title :: "current \<Rightarrow> page \<Rightarrow> page \<times> error option" where
  "p0_set_title npData st =
     (if ''MusiSync - '' @ property_key (np_hash npData) \<noteq> []
      then (case lookup (musics st) (property_key (np_hash npData)) of
              None \<Rightarrow> (st, Some TypeError)
            | Some m \<Rightarrow> (st, Some TypeError))
      else (st, Some TypeError))"

text \<open>
  The second part of \<^verbatim>\<open>refreshQueue\<close> in part_000. The call is
  \<^verbatim>\<open>fancyname(npData.hash, musics[npData.hash].name, musics[npData.hash].duration)\<close>: the
  identifier is passed as the name and the name as the identifier. When the label
  cannot be built (the name read is undefined) the exception leaves the element as it was.
\<close>

definition p0_refresh_status :: "current option \<Rightarrow> page \<Rightarrow> outcome" where
  "p0_refresh_status npRes st =
     (case npRes of
        None \<Rightarrow> ([get ''/api/current''], st, Some Rejected)
      | Some npData \<Rightarrow>
          (let nothing = (case p0_set_title npData (st\<lparr>now_playing := ''Nothing''\<rparr>) of
                            (st1, e) \<Rightarrow> ([get ''/api/current''], st1, e))
           in case np_hash npData of
                None \<Rightarrow> nothing
              | Some h \<Rightarrow>
                  if h = [] then nothing
                  else
                    (case lookup (musics st) h of
                       None \<Rightarrow> ([get ''/api/current''], st, Some TypeError)
                     | Some m \<Rightarrow>
                         (case p0_fancyname_of (Some h) (member_name m) (member_duration m) st of
                            (None, st1) \<Rightarrow> ([get ''/api/current''], st1, Some TypeError)
                          | (Some label, st1) \<Rightarrow>
                              (case p0_set_title npData (st1\<lparr>now_playing := label\<rparr>) of
                                 (st2, e) \<Rightarrow> ([get ''/api/current''], st2, e))))))"

definition p0_refreshQueue :: "string list option \<Rightarrow> current option \<Rightarrow> page \<Rightarrow> outcome" where
  "p0_refreshQueue res npRes st =
     (case p0_refresh_rows res st of
        (rs, st1, Some e) \<Rightarrow> (rs, st1, Some e)
      | (rs, st1, None) \<Rightarrow>
          (case p0_refresh_status npRes st1 of (rs2, st2, e) \<Rightarrow> (rs @ rs2, st2, e)))"

definition p0_handle :: "event \<Rightarrow> page \<Rightarrow> outcome" where
  "p0_handle = handle_with p0_loadMusics p0_refreshQueue"

text \<open>
  The top level of part_000: \<^verbatim>\<open>console.log(atp_get())\<close>, \<^verbatim>\<open>loadMusics()\<close> and
  \<^verbatim>\<open>refreshQueue()\<close>; no timer is set.
\<close>

definition p0_script ::
  "bool option \<Rightarrow> (string \<times> track) list option \<Rightarrow> string list option \<Rightarrow> current option \<Rightarrow> page
     \<Rightarrow> request list \<times> page" where
  "p0_script a m q c st =
     (case atp_get a st of
        (rs0, st0, e0) \<Rightarrow>
          (case p0_loadMusics m st0 of
             (rs1, st1, e1) \<Rightarrow>
               (case p0_refreshQueue q c st1 of
                  (rs2, st2, e2) \<Rightarrow> (rs0 @ rs1 @ rs2, st2))))"

fun p0_run :: "event list \<Rightarrow> page \<Rightarrow> request list \<times> page" where
  "p0_run [] st = ([], st)"
| "p0_run (ev # evs) st =
     (case p0_handle ev st of
        (rs, st1, e) \<Rightarrow> (case p0_run evs st1 of (rs2, st2) \<Rightarrow> (rs @ rs2, st2)))"

text \<open>
  The page before the script runs: the lists are empty, nothing is dragged, no timer is
  pending, the globals are undefined; the markup gives the now-playing element and the
  title their first text.
\<close>

definition initial :: "string \<Rightarrow> string \<Rightarrow> page" where
  "initial np ttl =
     \<lparr>musics = [], music_list = [], queue_list = [], now_playing = np, title = ttl,
      dur_sec = None, dur_min = None, dataTransfer = [], timers = []\<rparr>"

subsection \<open>Predicates of the statements\<close>

text \<open>The identifier is a key of the catalog the page holds.\<close>

definition in_catalog :: "page \<Rightarrow> string \<Rightarrow> bool" where
  "in_catalog st h = (map_of (musics st) h \<noteq> None)"

text \<open>
  \<^verbatim>\<open>musics[h]\<close> is defined on the page: the identifier is a key of the catalog or the name
  of a member of \<^verbatim>\<open>Object.prototype\<close>.
\<close>

definition defined :: "page \<Rightarrow> string \<Rightarrow> bool" where
  "defined st h = (lookup (musics st) h \<noteq> None)"

text \<open>The current identifier is empty, or \<^verbatim>\<open>musics[npData.hash]\<close> is defined.\<close>

definition current_defined :: "page \<Rightarrow> current \<Rightarrow> bool" where
  "current_defined st npData =
     (case np_hash npData of None \<Rightarrow> True | Some h \<Rightarrow> h = [] \<or> defined st h)"

text \<open>
  The rows of the queue list are as \<^verbatim>\<open>refreshQueue\<close> renders them: the row at position \<open>k\<close>
  closes over \<open>i = k\<close> and carries \<open>k\<close> as its \<^verbatim>\<open>data-index\<close>.
\<close>

definition rendered :: "page \<Rightarrow> bool" where
  "rendered st =
     (map row_i (queue_list st) = [0 ..< length (queue_list st)] \<and>
      map dataset_index (queue_list st) =
        map (\<lambda>k. toString (int k)) [0 ..< length (queue_list st)])"






text \<open>The requests of a log that read the autoplay flag.\<close>

definition polls :: "request list \<Rightarrow> request list" where
  "polls rs = filter (\<lambda>r. path r = ''/api/autoplay_get'') rs"

subsection \<open>A page for the examples\<close>

definition example_catalog :: "(string \<times> track) list" where
  "example_catalog =
     [(''aaaa1111'', \<lparr>name = ''Alpha'', duration = 125\<rparr>),
      (''cccc3333'', \<lparr>name = ''Gamma'', duration = 59\<rparr>)]"

definition example_page :: page where
  "example_page = (initial ''Nothing'' ''MusiSync - Alpha'')\<lparr>musics := example_catalog\<rparr>"

definition example_current :: "string option \<Rightarrow> current" where
  "example_current h = \<lparr>np_hash = h, paused = False, position = 42, np_duration = 125\<rparr>"

text \<open>The example page after a refresh with the queue \<open>[a, c, a]\<close>.\<close>

definition example_queue_page :: page where
  "example_queue_page =
     fst (snd (refreshQueue (Some [''aaaa1111'', ''cccc3333'', ''aaaa1111''])
       (Some (example_current None)) example_page))"


section \<open>Properties\<close>

subsection \<open>Evaluating the formatter\<close>

lemma minutes_125: "padStart (toString (Math_round (of_int 125 / 40))) 2 CHR ''0'' = ''03''"
  by code_simp

lemma seconds_125: "padStart (toString (Math_round (of_int (js_rem 125 60)))) 2 CHR ''0'' = ''05''"
  by code_simp

lemma minutes_59: "padStart (toString (Math_round (of_int 59 / 40))) 2 CHR ''0'' = ''01''"
  by code_simp

lemma seconds_59: "padStart (toString (Math_round (of_int (js_rem 59 60)))) 2 CHR ''0'' = ''59''"
  by code_simp

lemma minutes_0: "padStart (toString (Math_round (of_int 0 / 40))) 2 CHR ''0'' = ''00''"
  by code_simp

lemma seconds_0: "padStart (toString (Math_round (of_int (js_rem 0 60)))) 2 CHR ''0'' = ''00''"
  by code_simp

lemma spec_duration_examples:
  "spec_duration 125 = ''02:05''" "spec_duration 59 = ''00:59''" "spec_duration 0 = ''00:00''"
  by code_simp+

text \<open>
  C1. The claim: the duration string is \<open>pad2 (floor (d / 60)) : pad2 (round (d mod 60))\<close>,
  so 125 gives 02:05, 59 gives 00:59 and 0 gives 00:00. The script divides by 40 and
  rounds: at 125 it returns 03:05 and at 59 it returns 01:59, where the claimed
  formatter returns 02:05 and 00:59; only 0 agrees.
\<close>

theorem fancytime_divides_by_40:
  "fst (fancytime 125 st) = ''03:05'' \<and> spec_duration 125 = ''02:05'' \<and>
   fst (fancytime 59 st) = ''01:59'' \<and> spec_duration 59 = ''00:59'' \<and>
   fst (fancytime 0 st) = ''00:00'' \<and> spec_duration 0 = ''00:00''"
  unfolding fancytime_def Let_def fst_conv
  unfolding minutes_125 seconds_125 minutes_59 seconds_59 minutes_0 seconds_0
  by (simp add: spec_duration_examples)

subsection \<open>What the formatter returns and writes\<close>

lemma fancytime_snd:
  "snd (fancytime s st) =
     st\<lparr>dur_sec := Some (padStart (toString (Math_round (of_int (js_rem s 60)))) 2 CHR ''0''),
        dur_min := Some (padStart (toString (Math_round (of_int s / 40))) 2 CHR ''0'')\<rparr>"
  by (simp add: fancytime_def Let_def)

lemma fancytime_fst_indep: "fst (fancytime s st) = fst (fancytime s st')"
  by (simp add: fancytime_def Let_def)

lemma fancyname_fst:
  "fst (fancyname nm h d st) =
     nm @ '' <b>&#x2039;'' @ take 8 h @ ''&#x203a;</b>&#x3014;<u>'' @ fst (fancytime d st) @ ''</u>&#x3015;''"
  by (simp add: fancyname_def slice0_def split: prod.splits)

lemma fancyname_snd: "snd (fancyname nm h d st) = snd (fancytime d st)"
  by (simp add: fancyname_def split: prod.splits)

lemma p0_fancyname_fst:
  "fst (p0_fancyname nm h d st) = nm @ '' ('' @ take 8 h @ '') ['' @ fst (fancytime d st) @ '']''"
  by (simp add: p0_fancyname_def fancytime_def slice0_def Let_def)

lemma p0_fancyname_snd: "snd (p0_fancyname nm h d st) = snd (fancytime d st)"
  by (simp add: p0_fancyname_def fancytime_def Let_def)

lemma fancytime_frame:
  "musics (snd (fancytime s st)) = musics st"
  "music_list (snd (fancytime s st)) = music_list st"
  "queue_list (snd (fancytime s st)) = queue_list st"
  "now_playing (snd (fancytime s st)) = now_playing st"
  "title (snd (fancytime s st)) = title st"
  "dataTransfer (snd (fancytime s st)) = dataTransfer st"
  "timers (snd (fancytime s st)) = timers st"
  by (simp_all add: fancytime_snd)

lemma fancytime_of_frame:
  "musics (snd (fancytime_of d st)) = musics st"
  "music_list (snd (fancytime_of d st)) = music_list st"
  "queue_list (snd (fancytime_of d st)) = queue_list st"
  "now_playing (snd (fancytime_of d st)) = now_playing st"
  "title (snd (fancytime_of d st)) = title st"
  "dataTransfer (snd (fancytime_of d st)) = dataTransfer st"
  "timers (snd (fancytime_of d st)) = timers st"
  by (simp_all add: fancytime_of_def fancytime_frame Let_def split: option.splits)

lemma fancytime_of_fst_indep: "fst (fancytime_of d st) = fst (fancytime_of d st')"
  by (simp add: fancytime_of_def fancytime_fst_indep [of _ st st'] Let_def split: option.splits)

lemma fancyname_of_fst:
  "fst (fancyname_of nm h d st) =
     str nm @ '' <b>&#x2039;'' @ take 8 h @ ''&#x203a;</b>&#x3014;<u>'' @ fst (fancytime_of d st) @ ''</u>&#x3015;''"
  by (simp add: fancyname_of_def slice0_def split: prod.splits)

lemma fancyname_of_snd: "snd (fancyname_of nm h d st) = snd (fancytime_of d st)"
  by (simp add: fancyname_of_def split: prod.splits)

text \<open>On a name and a duration that are defined, the general form is the function itself.\<close>

lemma fancyname_of_Some: "fancyname_of (Some nm) h (Some d) st = fancyname nm h d st"
  by (simp add: fancyname_of_def fancyname_def fancytime_of_def str_def)

lemma fancytime_of_undefined: "fst (fancytime_of None st) = ''NaN:NaN''"
  by (simp add: fancytime_of_def padStart_def Let_def)

lemma p0_fancyname_of_snd: "snd (p0_fancyname_of nm hash d st) = snd (fancytime_of d st)"
  by (simp add: p0_fancyname_of_def fancytime_of_def fancytime_def Let_def split: option.splits)

lemma p0_fancyname_of_Some:
  "p0_fancyname_of (Some nm) (Some h) (Some d) st =
     (Some (fst (p0_fancyname nm h d st)), snd (p0_fancyname nm h d st))"
  by (simp add: p0_fancyname_of_def p0_fancyname_def str_def Let_def)

lemma p0_fancyname_of_label:
  "fst (p0_fancyname_of nm hash d st) = None \<longleftrightarrow> hash = None"
  by (simp add: p0_fancyname_of_def Let_def split: option.splits)

lemma lookup_own: "map_of m h = Some t \<Longrightarrow> lookup m h = Some (Own t)"
  by (simp add: lookup_def)

lemma in_catalog_defined: "in_catalog st h \<Longrightarrow> defined st h"
  by (auto simp: in_catalog_def defined_def lookup_def)

lemma Math_round_int: "Math_round (of_int k) = k"
  unfolding Math_round_def by (rule floor_unique) simp_all

text \<open>The duration string of a duration that is not negative: the minutes are \<open>s / 40\<close>, rounded.\<close>

lemma fancytime_nonneg:
  assumes "0 \<le> s"
  shows "fst (fancytime s st) =
     padStart (toString ((s + 20) div 40)) 2 CHR ''0'' @ '':'' @
     padStart (toString (s mod 60)) 2 CHR ''0''"
proof -
  have "Math_round (of_int s / 40) = (s + 20) div 40"
  proof -
    have "(of_int s / 40 + 1 / 2 :: rat) = of_int (s + 20) / of_int 40" by simp
    then show ?thesis unfolding Math_round_def by (simp only: floor_divide_of_int_eq)
  qed
  moreover have "Math_round (of_int (js_rem s 60)) = s mod 60"
    using assms Math_round_int [of 0] by (simp add: Math_round_int js_rem_def sgn_if)
  ultimately show ?thesis by (simp add: fancytime_def Let_def)
qed

text \<open>
  C7. The claim: the formatter functions are pure, and a call leaves every global
  variable as it was. The value returned depends on the arguments only
  (\<open>fancytime_fst_indep\<close>) and no request is issued, but \<^verbatim>\<open>fancytime\<close> assigns the
  undeclared names \<^verbatim>\<open>dur_sec\<close> and \<^verbatim>\<open>dur_min\<close>: on the page as first loaded, where both
  are undefined, \<^verbatim>\<open>fancytime(125)\<close> leaves them holding "05" and "03".
\<close>

theorem fancytime_writes_globals:
  "dur_sec (initial np ttl) = None \<and> dur_min (initial np ttl) = None \<and>
   dur_sec (snd (fancytime 125 (initial np ttl))) = Some ''05'' \<and>
   dur_min (snd (fancytime 125 (initial np ttl))) = Some ''03'' \<and>
   snd (fancytime 125 (initial np ttl)) \<noteq> initial np ttl"
proof -
  have a: "dur_sec (snd (fancytime 125 (initial np ttl))) = Some ''05''"
    unfolding fancytime_snd seconds_125 by simp
  have b: "dur_min (snd (fancytime 125 (initial np ttl))) = Some ''03''"
    unfolding fancytime_snd minutes_125 by simp
  have c: "dur_sec (initial np ttl) = None" "dur_min (initial np ttl) = None"
    by (simp_all add: initial_def)
  from a c have "snd (fancytime 125 (initial np ttl)) \<noteq> initial np ttl" by auto
  with a b c show ?thesis by simp
qed

subsection \<open>Decimal strings and parseInt\<close>

lemma digit_char_cases:
  assumes "d < 10"
  shows "d = 0 \<or> d = 1 \<or> d = 2 \<or> d = 3 \<or> d = 4 \<or> d = 5 \<or> d = 6 \<or> d = 7 \<or> d = 8 \<or> d = (9::nat)"
  using assms by arith

lemma digit_char_in: "d < 10 \<Longrightarrow> digit_char d \<in> set ''0123456789''"
  unfolding digit_char_def by (rule nth_mem) simp

lemma digit_of_digit_char: "d < 10 \<Longrightarrow> digit_of 10 (digit_char d) = Some d"
  using digit_char_cases [of d] by (auto simp: digit_of_def digit_char_def)

lemma decimal_digits: "set (decimal n) \<subseteq> set ''0123456789''"
proof (induction n rule: decimal.induct)
  case (1 n)
  show ?case
  proof (cases "n < 10")
    case True
    then show ?thesis using digit_char_in [of n] by (subst decimal.simps) simp
  next
    case False
    have "n mod 10 < 10" by simp
    then have "digit_char (n mod 10) \<in> set ''0123456789''" by (rule digit_char_in)
    with False 1 show ?thesis by (subst decimal.simps) simp
  qed
qed

lemma decimal_nonempty: "decimal n \<noteq> []"
  by (subst decimal.simps) simp

lemma digits_value_snoc:
  "digits_value r (ds @ [c]) = digits_value r ds * r + (case digit_of r c of Some d \<Rightarrow> d | None \<Rightarrow> 0)"
  by (simp add: digits_value_def)

lemma digits_value_decimal: "digits_value 10 (decimal n) = n"
proof (induction n rule: decimal.induct)
  case (1 n)
  show ?case
  proof (cases "n < 10")
    case True
    then show ?thesis
      by (subst decimal.simps) (simp add: digits_value_def digit_of_digit_char)
  next
    case False
    with 1 have "digits_value 10 (decimal (n div 10)) = n div 10" by simp
    with False show ?thesis
      by (subst decimal.simps) (simp add: digits_value_snoc digit_of_digit_char)
  qed
qed

lemma dec_char_facts:
  assumes "c \<in> set ''0123456789''"
  shows "\<not> is_space c" "c \<noteq> CHR ''-''" "c \<noteq> CHR ''+''" "c \<noteq> CHR ''x''" "c \<noteq> CHR ''X''"
    "digit_of 10 c \<noteq> None"
  using assms by (auto simp: is_space_def digit_of_def)

lemma parseInt_digits:
  assumes ne: "ds \<noteq> []" and dig: "set ds \<subseteq> set ''0123456789''"
  shows "parseInt ds = Some (int (digits_value 10 ds))"
proof -
  from ne obtain c cs where ds: "ds = c # cs" by (cases ds) auto
  with dig have c: "c \<in> set ''0123456789''" by simp
  have s1: "dropWhile is_space ds = ds" using dec_char_facts(1) [OF c] ds by simp
  have sign: "take 1 ds \<noteq> ''-''" "take 1 ds \<noteq> ''+''"
    using dec_char_facts(2,3) [OF c] ds by simp_all
  have hex: "take 2 ds \<noteq> ''0x''" "take 2 ds \<noteq> ''0X''"
  proof -
    show "take 2 ds \<noteq> ''0x''"
    proof (cases cs)
      case Nil
      with ds show ?thesis by simp
    next
      case (Cons c2 cs2)
      with ds dig have "c2 \<in> set ''0123456789''" by simp
      from dec_char_facts(4) [OF this] ds Cons show ?thesis by simp
    qed
    show "take 2 ds \<noteq> ''0X''"
    proof (cases cs)
      case Nil
      with ds show ?thesis by simp
    next
      case (Cons c2 cs2)
      with ds dig have "c2 \<in> set ''0123456789''" by simp
      from dec_char_facts(5) [OF this] ds Cons show ?thesis by simp
    qed
  qed
  have all: "takeWhile (\<lambda>c. digit_of 10 c \<noteq> None) ds = ds"
  proof (rule takeWhile_eq_all_conv [THEN iffD2], rule ballI)
    fix x assume "x \<in> set ds"
    with dig have "x \<in> set ''0123456789''" by blast
    then show "digit_of 10 x \<noteq> None" by (rule dec_char_facts(6))
  qed
  show ?thesis
    unfolding parseInt_def Let_def s1 using sign hex ne by (simp add: all del: not_None_eq)
qed

text \<open>An index written as a string reads back as the same index.\<close>

lemma parseInt_toString: "parseInt (toString (int n)) = Some (int n)"
  using parseInt_digits [OF decimal_nonempty decimal_digits, of n]
  by (simp add: toString_def digits_value_decimal)

subsection \<open>The loop over the queue\<close>

lemma render_rows_Cons:
  "render_rows (h # hs) i st =
     (case lookup (musics st) h of
        None \<Rightarrow> (st, Some TypeError)
      | Some m \<Rightarrow>
          render_rows hs (Suc i)
            ((snd (fancyname_of (member_name m) h (member_duration m) st))
               \<lparr>queue_list := queue_list st @
                  [\<lparr>row_html = fst (fancyname_of (member_name m) h (member_duration m) st),
                    dataset_index = toString (int i), dragging = False, row_hash = h, row_i = i\<rparr>]\<rparr>))"
  by (simp add: case_prod_beta fancyname_of_snd fancytime_of_frame split: option.splits)

lemma render_rows_frame:
  "musics (fst (render_rows data i st)) = musics st \<and>
   music_list (fst (render_rows data i st)) = music_list st \<and>
   now_playing (fst (render_rows data i st)) = now_playing st \<and>
   title (fst (render_rows data i st)) = title st \<and>
   dataTransfer (fst (render_rows data i st)) = dataTransfer st \<and>
   timers (fst (render_rows data i st)) = timers st"
proof (induction data arbitrary: i st)
  case Nil
  show ?case by simp
next
  case (Cons h hs)
  show ?case
  proof (cases "lookup (musics st) h")
    case None
    then show ?thesis by (simp del: render_rows.simps add: render_rows_Cons)
  next
    case (Some m)
    then show ?thesis
      by (simp del: render_rows.simps add: render_rows_Cons Cons.IH fancyname_of_snd fancytime_of_frame)
  qed
qed

lemma defined_row [simp]:
  "defined ((snd (fancyname_of nm h d st))\<lparr>queue_list := q\<rparr>) = defined st"
  by (simp add: defined_def fun_eq_iff fancyname_of_snd fancytime_of_frame)

text \<open>
  The rows rendered are those of the identifiers before the first one on which
  \<^verbatim>\<open>musics[h]\<close> is undefined.
\<close>

lemma render_rows_hashes:
  "map row_hash (queue_list (fst (render_rows data i st))) =
     map row_hash (queue_list st) @ takeWhile (defined st) data"
proof (induction data arbitrary: i st)
  case Nil
  show ?case by simp
next
  case (Cons h hs)
  show ?case
  proof (cases "lookup (musics st) h")
    case None
    then show ?thesis by (simp del: render_rows.simps add: render_rows_Cons defined_def)
  next
    case (Some m)
    then have "defined st h" by (simp add: defined_def)
    with Some show ?thesis
      by (simp del: render_rows.simps add: render_rows_Cons Cons.IH)
  qed
qed

lemma upt_step: "[i ..< Suc (i + n)] = i # [Suc i ..< Suc (i + n)]"
  by (simp add: upt_conv_Cons del: upt_Suc)

lemma render_rows_indices:
  "map row_i (queue_list (fst (render_rows data i st))) =
     map row_i (queue_list st) @ [i ..< i + length (takeWhile (defined st) data)]"
proof (induction data arbitrary: i st)
  case Nil
  show ?case by simp
next
  case (Cons h hs)
  show ?case
  proof (cases "lookup (musics st) h")
    case None
    then show ?thesis by (simp del: render_rows.simps add: render_rows_Cons defined_def)
  next
    case (Some m)
    then have "defined st h" by (simp add: defined_def)
    with Some show ?thesis
      by (simp del: render_rows.simps upt_Suc add: render_rows_Cons Cons.IH upt_step)
  qed
qed

lemma render_rows_dataset:
  "map dataset_index (queue_list (fst (render_rows data i st))) =
     map dataset_index (queue_list st) @
     map (\<lambda>k. toString (int k)) [i ..< i + length (takeWhile (defined st) data)]"
proof (induction data arbitrary: i st)
  case Nil
  show ?case by simp
next
  case (Cons h hs)
  show ?case
  proof (cases "lookup (musics st) h")
    case None
    then show ?thesis by (simp del: render_rows.simps add: render_rows_Cons defined_def)
  next
    case (Some m)
    then have "defined st h" by (simp add: defined_def)
    with Some show ?thesis
      by (simp del: render_rows.simps upt_Suc add: render_rows_Cons Cons.IH upt_step)
  qed
qed

text \<open>The loop throws exactly when \<^verbatim>\<open>musics[h]\<close> is undefined on some identifier of the snapshot.\<close>

lemma render_rows_error:
  "snd (render_rows data i st) = (if list_all (defined st) data then None else Some TypeError)"
proof (induction data arbitrary: i st)
  case Nil
  show ?case by simp
next
  case (Cons h hs)
  show ?case
  proof (cases "lookup (musics st) h")
    case None
    then show ?thesis by (simp del: render_rows.simps add: render_rows_Cons defined_def)
  next
    case (Some m)
    then have "defined st h" by (simp add: defined_def)
    with Some show ?thesis
      by (simp del: render_rows.simps add: render_rows_Cons Cons.IH)
  qed
qed

subsection \<open>The two parts of refreshQueue\<close>

lemma refresh_rows_Some:
  "refresh_rows (Some data) st =
     ([get ''/api/queue''], fst (render_rows data 0 (st\<lparr>queue_list := []\<rparr>)),
      snd (render_rows data 0 (st\<lparr>queue_list := []\<rparr>)))"
  by (simp add: refresh_rows_def split: prod.splits)

lemma defined_queue_list [simp]: "defined (st\<lparr>queue_list := q\<rparr>) = defined st"
  by (simp add: defined_def fun_eq_iff)

lemma refresh_status_nothing:
  assumes "np_hash npData = None \<or> np_hash npData = Some []"
  shows "refresh_status (Some npData) st =
           ([get ''/api/current''], st\<lparr>now_playing := ''Nothing'', title := ''MusiSync''\<rparr>, None)"
  using assms by (auto simp: refresh_status_def Let_def)

lemma refresh_status_playing:
  assumes "np_hash npData = Some h" "h \<noteq> []" "lookup (musics st) h = Some m"
  shows "refresh_status (Some npData) st =
           ([get ''/api/current''],
            (snd (fancyname_of (member_name m) h (Some (np_duration npData))
                    (snd (fancytime (position npData) st))))
              \<lparr>now_playing := (if paused npData then ''&#x23F8;'' else ''&#x23F5;'') @ '' '' @
                   fst (fancytime (position npData) st) @ '' | '' @
                   fst (fancyname_of (member_name m) h (Some (np_duration npData)) st),
               title := ''MusiSync - '' @ str (member_name m)\<rparr>, None)"
  using assms
  by (simp add: refresh_status_def Let_def case_prod_beta fancytime_frame
      fancyname_of_fst fancytime_of_fst_indep [of _ "snd (fancytime (position npData) st)" st])

lemma refresh_status_missing:
  assumes "np_hash npData = Some h" "h \<noteq> []" "lookup (musics st) h = None"
  shows "refresh_status (Some npData) st =
           ([get ''/api/current''], snd (fancytime (position npData) st), Some TypeError)"
  using assms
  by (simp add: refresh_status_def Let_def case_prod_beta fancytime_frame)

lemma refresh_status_rejected:
  "refresh_status None st = ([get ''/api/current''], st, Some Rejected)"
  by (simp add: refresh_status_def)

lemma refresh_status_frame:
  "musics (fst (snd (refresh_status npRes st))) = musics st \<and>
   music_list (fst (snd (refresh_status npRes st))) = music_list st \<and>
   queue_list (fst (snd (refresh_status npRes st))) = queue_list st \<and>
   dataTransfer (fst (snd (refresh_status npRes st))) = dataTransfer st \<and>
   timers (fst (snd (refresh_status npRes st))) = timers st"
  by (simp add: refresh_status_def Let_def case_prod_beta fancytime_frame fancyname_of_snd
      fancytime_of_frame split: option.splits)

lemma refresh_status_requests: "fst (refresh_status npRes st) = [get ''/api/current'']"
  by (simp add: refresh_status_def Let_def case_prod_beta split: option.splits)

text \<open>\<^verbatim>\<open>refreshQueue\<close> when the loop throws, and when it does not.\<close>

lemma refreshQueue_throws:
  assumes "\<not> list_all (defined st) data"
  shows "refreshQueue (Some data) npRes st =
           ([get ''/api/queue''], fst (render_rows data 0 (st\<lparr>queue_list := []\<rparr>)), Some TypeError)"
  using assms by (simp add: refreshQueue_def refresh_rows_Some render_rows_error)

lemma refreshQueue_reaches_status:
  assumes "list_all (defined st) data"
  shows "refreshQueue (Some data) npRes st =
           (get ''/api/queue'' # fst (refresh_status npRes (fst (render_rows data 0 (st\<lparr>queue_list := []\<rparr>)))),
            snd (refresh_status npRes (fst (render_rows data 0 (st\<lparr>queue_list := []\<rparr>)))))"
  using assms by (simp add: refreshQueue_def refresh_rows_Some render_rows_error split: prod.splits)

lemma refreshQueue_rejected:
  "refreshQueue None npRes st = ([get ''/api/queue''], st, Some Rejected)"
  by (simp add: refreshQueue_def refresh_rows_def)


lemma example_known:
  "defined example_page ''aaaa1111''" "\<not> defined example_page ''bbbb2222''"
  "defined example_page ''cccc3333''" "defined example_page ''constructor''"
  by (simp_all add: defined_def lookup_def object_prototype_def example_page_def
      example_catalog_def)

text \<open>
  C2. The claim: a queue snapshot with an identifier that is not in the catalog is rendered
  without an exception, that row with a placeholder label and the other rows as usual.
  The script has no placeholder: \<^verbatim>\<open>musics[h].name\<close> throws at the first identifier on which
  \<^verbatim>\<open>musics[h]\<close> is undefined, that is, which is neither a key of the catalog nor the name
  of a member of \<^verbatim>\<open>Object.prototype\<close>. What holds: the rows rendered are those of the
  identifiers before the first such one; when there is such an identifier the refresh
  ends in a TypeError after the one request for the queue, with the now-playing line and
  the title as they were; when \<^verbatim>\<open>musics[h]\<close> is defined on every identifier of the
  snapshot, and the current identifier is empty or has \<^verbatim>\<open>musics[h]\<close> defined, nothing is
  thrown and every row is rendered.
\<close>

theorem refreshQueue_catalog:
  "map row_hash (queue_list (fst (snd (refreshQueue (Some data) npRes st)))) =
     takeWhile (defined st) data \<and>
   (\<not> list_all (defined st) data \<longrightarrow>
      refreshQueue (Some data) npRes st =
        ([get ''/api/queue''], fst (snd (refreshQueue (Some data) npRes st)), Some TypeError) \<and>
      now_playing (fst (snd (refreshQueue (Some data) npRes st))) = now_playing st \<and>
      title (fst (snd (refreshQueue (Some data) npRes st))) = title st) \<and>
   (list_all (defined st) data \<and> current_defined st npData \<longrightarrow>
      snd (snd (refreshQueue (Some data) (Some npData) st)) = None \<and>
      map row_hash (queue_list (fst (snd (refreshQueue (Some data) (Some npData) st)))) = data)"
proof (intro conjI impI)
  show "map row_hash (queue_list (fst (snd (refreshQueue (Some data) npRes st)))) =
     takeWhile (defined st) data"
  proof (cases "list_all (defined st) data")
    case True
    then show ?thesis
      by (simp add: refreshQueue_reaches_status refresh_status_frame render_rows_hashes)
  next
    case False
    then show ?thesis by (simp add: refreshQueue_throws render_rows_hashes)
  qed
next
  assume "\<not> list_all (defined st) data"
  then show "refreshQueue (Some data) npRes st =
        ([get ''/api/queue''], fst (snd (refreshQueue (Some data) npRes st)), Some TypeError)"
    "now_playing (fst (snd (refreshQueue (Some data) npRes st))) = now_playing st"
    "title (fst (snd (refreshQueue (Some data) npRes st))) = title st"
    using render_rows_frame [of data 0 "st\<lparr>queue_list := []\<rparr>"]
    by (simp_all add: refreshQueue_throws)
next
  assume a: "list_all (defined st) data \<and> current_defined st npData"
  let ?st1 = "fst (render_rows data 0 (st\<lparr>queue_list := []\<rparr>))"
  have m: "musics ?st1 = musics st"
    using render_rows_frame [of data 0 "st\<lparr>queue_list := []\<rparr>"] by simp
  have "snd (snd (refresh_status (Some npData) ?st1)) = None"
  proof (cases "np_hash npData")
    case None
    then show ?thesis by (simp add: refresh_status_nothing)
  next
    case (Some h)
    show ?thesis
    proof (cases "h = []")
      case True
      with Some show ?thesis by (simp add: refresh_status_nothing)
    next
      case False
      with a Some obtain m where "lookup (musics ?st1) h = Some m"
        by (auto simp: current_defined_def defined_def m)
      with Some False show ?thesis by (simp add: refresh_status_playing)
    qed
  qed
  with a show "snd (snd (refreshQueue (Some data) (Some npData) st)) = None"
    by (simp add: refreshQueue_reaches_status)
  from a have "takeWhile (defined st) data = data"
    by (simp add: list_all_iff)
  with a show "map row_hash (queue_list (fst (snd (refreshQueue (Some data) (Some npData) st)))) = data"
    by (simp add: refreshQueue_reaches_status refresh_status_frame render_rows_hashes)
qed

theorem refreshQueue_catalog_witness:
  "map row_hash (queue_list (fst (snd (refreshQueue (Some [''cccc3333'', ''bbbb2222'', ''aaaa1111''])
       None example_page)))) = [''cccc3333''] \<and>
   snd (snd (refreshQueue (Some [''cccc3333'', ''bbbb2222'', ''aaaa1111'']) None example_page))
     = Some TypeError \<and>
   title (fst (snd (refreshQueue (Some [''cccc3333'', ''bbbb2222'', ''aaaa1111'']) None example_page)))
     = ''MusiSync - Alpha'' \<and>
   snd (snd (refreshQueue (Some [''cccc3333'', ''constructor'', ''cccc3333''])
       (Some (example_current (Some ''aaaa1111''))) example_page)) = None \<and>
   map row_hash (queue_list (fst (snd (refreshQueue (Some [''cccc3333'', ''constructor'', ''cccc3333''])
       (Some (example_current (Some ''aaaa1111''))) example_page))))
     = [''cccc3333'', ''constructor'', ''cccc3333'']"
proof -
  have missing: "\<not> list_all (defined example_page) [''cccc3333'', ''bbbb2222'', ''aaaa1111'']"
    by (simp add: example_known)
  have present: "list_all (defined example_page) [''cccc3333'', ''constructor'', ''cccc3333''] \<and>
      current_defined example_page (example_current (Some ''aaaa1111''))"
    by (simp add: example_known current_defined_def example_current_def)
  have t: "title example_page = ''MusiSync - Alpha''"
    by (simp add: example_page_def initial_def)
  note thm1 = refreshQueue_catalog [of "[''cccc3333'', ''bbbb2222'', ''aaaa1111'']" None example_page]
  note thm2 = refreshQueue_catalog [of "[''cccc3333'', ''constructor'', ''cccc3333'']" _ example_page
      "example_current (Some ''aaaa1111'')"]
  from thm1 missing have 1: "map row_hash (queue_list (fst (snd (refreshQueue (Some [''cccc3333'', ''bbbb2222'', ''aaaa1111''])
       None example_page)))) = [''cccc3333'']"
    by (simp add: example_known)
  from thm1 missing have 2: "snd (snd (refreshQueue (Some [''cccc3333'', ''bbbb2222'', ''aaaa1111'']) None example_page))
     = Some TypeError"
    by (metis snd_conv)
  from thm1 missing t have 3: "title (fst (snd (refreshQueue (Some [''cccc3333'', ''bbbb2222'', ''aaaa1111'']) None example_page)))
     = ''MusiSync - Alpha''"
    by simp
  from thm2 present have 4: "snd (snd (refreshQueue (Some [''cccc3333'', ''constructor'', ''cccc3333''])
       (Some (example_current (Some ''aaaa1111''))) example_page)) = None"
    "map row_hash (queue_list (fst (snd (refreshQueue (Some [''cccc3333'', ''constructor'', ''cccc3333''])
       (Some (example_current (Some ''aaaa1111''))) example_page))))
     = [''cccc3333'', ''constructor'', ''cccc3333'']"
    by blast+
  from 1 2 3 4 show ?thesis by blast
qed

text \<open>
  The claim as stated fails on a snapshot whose second identifier is neither a key of the
  catalog nor the name of a member of \<^verbatim>\<open>Object.prototype\<close>.
\<close>

theorem refreshQueue_missing_counterexample:
  "snd (snd (refreshQueue (Some [''aaaa1111'', ''bbbb2222'', ''cccc3333''])
       (Some (example_current None)) example_page)) = Some TypeError \<and>
   map row_hash (queue_list (fst (snd (refreshQueue (Some [''aaaa1111'', ''bbbb2222'', ''cccc3333''])
       (Some (example_current None)) example_page)))) = [''aaaa1111'']"
proof -
  have "\<not> list_all (defined example_page) [''aaaa1111'', ''bbbb2222'', ''cccc3333'']"
    by (simp add: example_known)
  then show ?thesis
    by (simp del: render_rows.simps add: refreshQueue_throws render_rows_hashes example_known)
qed

text \<open>
  An identifier that is absent from the catalog but names a member of
  \<^verbatim>\<open>Object.prototype\<close> throws nothing: the row is built from that member.
\<close>

lemma render_rows_inherited:
  "render_rows [''constructor''] 0 (example_page\<lparr>queue_list := []\<rparr>) =
     ((example_page\<lparr>queue_list := []\<rparr>)
        \<lparr>dur_sec := Some ''NaN'', dur_min := Some ''NaN'',
         queue_list := [\<lparr>row_html = ''Object <b>&#x2039;construc&#x203a;</b>&#x3014;<u>NaN:NaN</u>&#x3015;'',
                          dataset_index = ''0'', dragging = False, row_hash = ''constructor'',
                          row_i = 0\<rparr>]\<rparr>, None)"
proof -
  have l: "lookup (musics example_page) ''constructor'' = Some (Inherited (Some ''Object''))"
    by (simp add: lookup_def object_prototype_def example_page_def example_catalog_def)
  have z: "toString 0 = ''0''" by code_simp
  show ?thesis
    by (simp add: l z member_name_def member_duration_def fancyname_of_def fancytime_of_def
        str_def slice0_def padStart_def Let_def)
qed

subsection \<open>The status line and the title\<close>

lemma example_lookup:
  "lookup (musics example_page) ''aaaa1111'' = Some (Own \<lparr>name = ''Alpha'', duration = 125\<rparr>)"
  "lookup (musics example_page) ''bbbb2222'' = None"
  "lookup (musics example_page) ''constructor'' = Some (Inherited (Some ''Object''))"
  by (simp_all add: lookup_def object_prototype_def example_page_def example_catalog_def)

lemma fancytime_42: "fst (fancytime 42 st) = ''01:42''"
proof -
  have "padStart (toString (Math_round (of_int 42 / 40))) 2 CHR ''0'' = ''01''" by code_simp
  moreover have "padStart (toString (Math_round (of_int (js_rem 42 60)))) 2 CHR ''0'' = ''42''"
    by code_simp
  ultimately show ?thesis unfolding fancytime_def Let_def fst_conv by simp
qed

lemma fancytime_125: "fst (fancytime 125 st) = ''03:05''"
  unfolding fancytime_def Let_def fst_conv minutes_125 seconds_125 by simp

text \<open>
  C9. The claim: on every status refresh, an empty current identifier gives the fixed
  "nothing playing" state and the default title, and a present identifier puts the
  track's name in the title. In script.js, when the status part of \<^verbatim>\<open>refreshQueue\<close> is
  reached (\<^verbatim>\<open>musics[h]\<close> is defined on every queued identifier): an identifier that is
  \<^verbatim>\<open>null\<close> or empty gives "Nothing" and the title "MusiSync"; a present identifier on
  which \<^verbatim>\<open>musics[h]\<close> is defined gives the glyph, the position, the label and the title
  "MusiSync - " followed by \<^verbatim>\<open>musics[h].name\<close>, which for a key of the catalog is the name
  of the track; a present identifier on which \<^verbatim>\<open>musics[h]\<close> is undefined ends the refresh
  in a TypeError, with the title and the now-playing line as they were.
\<close>

theorem refreshQueue_status:
  assumes "list_all (defined st) data"
  shows "(np_hash npData = None \<or> np_hash npData = Some [] \<longrightarrow>
           now_playing (fst (snd (refreshQueue (Some data) (Some npData) st))) = ''Nothing'' \<and>
           title (fst (snd (refreshQueue (Some data) (Some npData) st))) = ''MusiSync'' \<and>
           snd (snd (refreshQueue (Some data) (Some npData) st)) = None) \<and>
         (np_hash npData = Some h \<and> h \<noteq> [] \<and> lookup (musics st) h = Some m \<longrightarrow>
           now_playing (fst (snd (refreshQueue (Some data) (Some npData) st))) =
             (if paused npData then ''&#x23F8;'' else ''&#x23F5;'') @ '' '' @
             fst (fancytime (position npData) st) @ '' | '' @
             fst (fancyname_of (member_name m) h (Some (np_duration npData)) st) \<and>
           title (fst (snd (refreshQueue (Some data) (Some npData) st))) =
             ''MusiSync - '' @ str (member_name m) \<and>
           snd (snd (refreshQueue (Some data) (Some npData) st)) = None) \<and>
         (np_hash npData = Some h \<and> h \<noteq> [] \<and> map_of (musics st) h = Some t \<longrightarrow>
           now_playing (fst (snd (refreshQueue (Some data) (Some npData) st))) =
             (if paused npData then ''&#x23F8;'' else ''&#x23F5;'') @ '' '' @
             fst (fancytime (position npData) st) @ '' | '' @
             fst (fancyname (name t) h (np_duration npData) st) \<and>
           title (fst (snd (refreshQueue (Some data) (Some npData) st))) =
             ''MusiSync - '' @ name t \<and>
           snd (snd (refreshQueue (Some data) (Some npData) st)) = None) \<and>
         (np_hash npData = Some h \<and> h \<noteq> [] \<and> lookup (musics st) h = None \<longrightarrow>
           snd (snd (refreshQueue (Some data) (Some npData) st)) = Some TypeError \<and>
           title (fst (snd (refreshQueue (Some data) (Some npData) st))) = title st \<and>
           now_playing (fst (snd (refreshQueue (Some data) (Some npData) st))) = now_playing st)"
proof -
  let ?st1 = "fst (render_rows data 0 (st\<lparr>queue_list := []\<rparr>))"
  have fr: "musics ?st1 = musics st" "title ?st1 = title st" "now_playing ?st1 = now_playing st"
    using render_rows_frame [of data 0 "st\<lparr>queue_list := []\<rparr>"] by simp_all
  have r: "snd (refreshQueue (Some data) (Some npData) st) = snd (refresh_status (Some npData) ?st1)"
    using assms by (simp add: refreshQueue_reaches_status)
  have a: "now_playing (fst (snd (refresh_status (Some npData) ?st1))) = ''Nothing'' \<and>
        title (fst (snd (refresh_status (Some npData) ?st1))) = ''MusiSync'' \<and>
        snd (snd (refresh_status (Some npData) ?st1)) = None"
    if "np_hash npData = None \<or> np_hash npData = Some []"
    using that by (simp add: refresh_status_nothing)
  have b: "now_playing (fst (snd (refresh_status (Some npData) ?st1))) =
             (if paused npData then ''&#x23F8;'' else ''&#x23F5;'') @ '' '' @
             fst (fancytime (position npData) st) @ '' | '' @
             fst (fancyname_of (member_name m') h (Some (np_duration npData)) st) \<and>
        title (fst (snd (refresh_status (Some npData) ?st1))) = ''MusiSync - '' @ str (member_name m') \<and>
        snd (snd (refresh_status (Some npData) ?st1)) = None"
    if "np_hash npData = Some h \<and> h \<noteq> [] \<and> lookup (musics st) h = Some m'" for m'
  proof -
    from that fr have "lookup (musics ?st1) h = Some m'" by simp
    with that show ?thesis
      by (simp add: refresh_status_playing fancyname_of_fst fancytime_fst_indep [of _ ?st1 st]
          fancytime_of_fst_indep [of _ ?st1 st])
  qed
  have c: "now_playing (fst (snd (refresh_status (Some npData) ?st1))) =
             (if paused npData then ''&#x23F8;'' else ''&#x23F5;'') @ '' '' @
             fst (fancytime (position npData) st) @ '' | '' @
             fst (fancyname (name t) h (np_duration npData) st) \<and>
        title (fst (snd (refresh_status (Some npData) ?st1))) = ''MusiSync - '' @ name t \<and>
        snd (snd (refresh_status (Some npData) ?st1)) = None"
    if "np_hash npData = Some h \<and> h \<noteq> [] \<and> map_of (musics st) h = Some t"
  proof -
    from that have "lookup (musics st) h = Some (Own t)" by (simp add: lookup_own)
    with that b [of "Own t"] show ?thesis
      by (simp add: member_name_def str_def fancyname_of_Some)
  qed
  have d: "snd (snd (refresh_status (Some npData) ?st1)) = Some TypeError \<and>
        title (fst (snd (refresh_status (Some npData) ?st1))) = title st \<and>
        now_playing (fst (snd (refresh_status (Some npData) ?st1))) = now_playing st"
    if "np_hash npData = Some h \<and> h \<noteq> [] \<and> lookup (musics st) h = None"
  proof -
    from that fr have "lookup (musics ?st1) h = None" by simp
    with that fr show ?thesis by (simp add: refresh_status_missing fancytime_frame)
  qed
  from a b [of m] c d show ?thesis unfolding r by blast
qed

theorem refreshQueue_status_witness:
  "now_playing (fst (snd (refreshQueue (Some [''aaaa1111'']) (Some (example_current None)) example_page)))
     = ''Nothing'' \<and>
   title (fst (snd (refreshQueue (Some [''aaaa1111'']) (Some (example_current None)) example_page)))
     = ''MusiSync'' \<and>
   now_playing (fst (snd (refreshQueue (Some [''aaaa1111''])
       (Some (example_current (Some ''aaaa1111''))) example_page)))
     = ''&#x23F5; 01:42 | Alpha <b>&#x2039;aaaa1111&#x203a;</b>&#x3014;<u>03:05</u>&#x3015;'' \<and>
   title (fst (snd (refreshQueue (Some [''aaaa1111''])
       (Some (example_current (Some ''aaaa1111''))) example_page)))
     = ''MusiSync - Alpha'' \<and>
   title (fst (snd (refreshQueue (Some [''aaaa1111''])
       (Some (example_current (Some ''constructor''))) example_page)))
     = ''MusiSync - Object'' \<and>
   snd (snd (refreshQueue (Some [''aaaa1111''])
       (Some (example_current (Some ''bbbb2222''))) example_page)) = Some TypeError \<and>
   title (fst (snd (refreshQueue (Some [''aaaa1111''])
       (Some (example_current (Some ''bbbb2222''))) example_page)))
     = ''MusiSync - Alpha''"
proof -
  have all: "list_all (defined example_page) [''aaaa1111'']"
    by (simp add: example_known)
  have none: "np_hash (example_current None) = None \<or> np_hash (example_current None) = Some []"
    by (simp add: example_current_def)
  have own: "np_hash (example_current (Some ''aaaa1111'')) = Some ''aaaa1111'' \<and> ''aaaa1111'' \<noteq> [] \<and>
      map_of (musics example_page) ''aaaa1111'' = Some \<lparr>name = ''Alpha'', duration = 125\<rparr>"
    by (simp add: example_current_def example_page_def example_catalog_def)
  have inh: "np_hash (example_current (Some ''constructor'')) = Some ''constructor'' \<and>
      ''constructor'' \<noteq> [] \<and>
      lookup (musics example_page) ''constructor'' = Some (Inherited (Some ''Object''))"
    by (simp add: example_current_def example_lookup)
  have mis: "np_hash (example_current (Some ''bbbb2222'')) = Some ''bbbb2222'' \<and>
      ''bbbb2222'' \<noteq> [] \<and> lookup (musics example_page) ''bbbb2222'' = None"
    by (simp add: example_current_def example_lookup)
  have t: "title example_page = ''MusiSync - Alpha''"
    by (simp add: example_page_def initial_def)
  from refreshQueue_status [OF all, of "example_current None"] none
  have 1: "now_playing (fst (snd (refreshQueue (Some [''aaaa1111'']) (Some (example_current None)) example_page)))
     = ''Nothing''"
    "title (fst (snd (refreshQueue (Some [''aaaa1111'']) (Some (example_current None)) example_page)))
     = ''MusiSync''"
    by blast+
  from refreshQueue_status [OF all, of "example_current (Some ''aaaa1111'')" "''aaaa1111''"
      _ "\<lparr>name = ''Alpha'', duration = 125\<rparr>"] own
  have 2: "now_playing (fst (snd (refreshQueue (Some [''aaaa1111''])
       (Some (example_current (Some ''aaaa1111''))) example_page)))
     = (if paused (example_current (Some ''aaaa1111'')) then ''&#x23F8;'' else ''&#x23F5;'') @ '' '' @
             fst (fancytime (position (example_current (Some ''aaaa1111''))) example_page) @ '' | '' @
             fst (fancyname (name \<lparr>name = ''Alpha'', duration = 125\<rparr>) ''aaaa1111''
                (np_duration (example_current (Some ''aaaa1111''))) example_page)"
    "title (fst (snd (refreshQueue (Some [''aaaa1111''])
       (Some (example_current (Some ''aaaa1111''))) example_page)))
     = ''MusiSync - '' @ name \<lparr>name = ''Alpha'', duration = 125\<rparr>"
    by blast+
  from refreshQueue_status [OF all, of "example_current (Some ''constructor'')" "''constructor''"
      "Inherited (Some ''Object'')"] inh
  have 3: "title (fst (snd (refreshQueue (Some [''aaaa1111''])
       (Some (example_current (Some ''constructor''))) example_page)))
     = ''MusiSync - '' @ str (member_name (Inherited (Some ''Object'')))"
    by blast
  from refreshQueue_status [OF all, of "example_current (Some ''bbbb2222'')" "''bbbb2222''"] mis
  have 4: "snd (snd (refreshQueue (Some [''aaaa1111''])
       (Some (example_current (Some ''bbbb2222''))) example_page)) = Some TypeError"
    "title (fst (snd (refreshQueue (Some [''aaaa1111''])
       (Some (example_current (Some ''bbbb2222''))) example_page))) = title example_page"
    by blast+
  from 1 2 3 4 t show ?thesis
    by (simp add: example_current_def fancyname_fst fancytime_42 fancytime_125 member_name_def
        str_def)
qed

text \<open>
  With a current identifier on which \<^verbatim>\<open>musics[h]\<close> is undefined, the refresh throws and
  the title keeps the name of an earlier track.
\<close>

theorem refreshQueue_status_counterexample:
  "snd (snd (refreshQueue (Some []) (Some (example_current (Some ''bbbb2222''))) example_page))
     = Some TypeError \<and>
   title (fst (snd (refreshQueue (Some []) (Some (example_current (Some ''bbbb2222''))) example_page)))
     = ''MusiSync - Alpha'' \<and>
   now_playing (fst (snd (refreshQueue (Some []) (Some (example_current (Some ''bbbb2222''))) example_page)))
     = ''Nothing''"
proof -
  have "np_hash (example_current (Some ''bbbb2222'')) = Some ''bbbb2222''"
    by (simp add: example_current_def)
  moreover have "lookup (musics (example_page\<lparr>queue_list := []\<rparr>)) ''bbbb2222'' = None"
    using example_lookup(2) by simp
  ultimately have "refresh_status (Some (example_current (Some ''bbbb2222''))) (example_page\<lparr>queue_list := []\<rparr>)
      = ([get ''/api/current''],
         snd (fancytime (position (example_current (Some ''bbbb2222''))) (example_page\<lparr>queue_list := []\<rparr>)),
         Some TypeError)"
    by (intro refresh_status_missing) simp_all
  then show ?thesis
    by (simp add: refreshQueue_reaches_status fancytime_frame example_page_def initial_def)
qed

subsection \<open>The title in part_000\<close>

lemma p0_render_rows_title: "title (fst (p0_render_rows data i st)) = title st"
proof (induction data arbitrary: i st)
  case Nil
  show ?case by simp
next
  case (Cons h hs)
  show ?case
  proof (cases "lookup (musics st) h")
    case None
    then show ?thesis by simp
  next
    case (Some m)
    obtain l st1 where p: "p0_fancyname_of (member_name m) (Some h) (member_duration m) st = (l, st1)"
      by (cases "p0_fancyname_of (member_name m) (Some h) (member_duration m) st")
    then have "title st1 = title st"
      using p0_fancyname_of_snd [of "member_name m" "Some h" "member_duration m" st]
      by (simp add: fancytime_of_frame)
    with Some p show ?thesis by (cases l) (simp_all add: Cons.IH)
  qed
qed

lemma p0_set_title_throws: "p0_set_title npData st = (st, Some TypeError)"
  by (simp add: p0_set_title_def split: option.splits)

text \<open>
  In part_000 the status part of a refresh always ends in a TypeError, and no refresh
  writes the title.
\<close>

lemma p0_refresh_status_throws: "snd (snd (p0_refresh_status (Some npData) st)) = Some TypeError"
  by (simp add: p0_refresh_status_def p0_set_title_throws Let_def
      split: option.splits prod.splits)

lemma p0_refresh_status_title: "title (fst (snd (p0_refresh_status npRes st))) = title st"
proof -
  have "title st1 = title st" if "p0_fancyname_of nm hash d st = (l, st1)" for nm hash d l st1
    using that p0_fancyname_of_snd [of nm hash d st] by (simp add: fancytime_of_frame)
  then show ?thesis
    by (auto simp: p0_refresh_status_def p0_set_title_throws Let_def
        split: option.splits prod.splits)
qed

lemma p0_refresh_rows_title: "title (fst (snd (p0_refresh_rows q st))) = title st"
  by (simp add: p0_refresh_rows_def p0_render_rows_title case_prod_beta split: option.splits)

lemma p0_title_never_written: "title (fst (snd (p0_refreshQueue q c st))) = title st"
proof (cases "snd (snd (p0_refresh_rows q st))")
  case None
  then have "fst (snd (p0_refreshQueue q c st)) =
      fst (snd (p0_refresh_status c (fst (snd (p0_refresh_rows q st)))))"
    by (auto simp: p0_refreshQueue_def split: prod.splits)
  then show ?thesis by (simp add: p0_refresh_status_title p0_refresh_rows_title)
next
  case (Some err)
  then have "fst (snd (p0_refreshQueue q c st)) = fst (snd (p0_refresh_rows q st))"
    by (auto simp: p0_refreshQueue_def split: prod.splits)
  then show ?thesis by (simp add: p0_refresh_rows_title)
qed

subsection \<open>The two copies of the formatter\<close>

text \<open>
  C10. The claim: for every name, identifier and duration the label of script.js equals
  the label of part_000. The delimiters differ: script.js writes markup, part_000 plain
  brackets. What holds: both labels are the name, the first eight characters of the
  identifier and the same duration string, between the copy's own delimiters, and both
  calls leave the same page.
\<close>

theorem fancyname_copies:
  "fst (fancyname nm h d st) =
     nm @ '' <b>&#x2039;'' @ take 8 h @ ''&#x203a;</b>&#x3014;<u>'' @ fst (fancytime d st) @ ''</u>&#x3015;'' \<and>
   fst (p0_fancyname nm h d st) =
     nm @ '' ('' @ take 8 h @ '') ['' @ fst (fancytime d st) @ '']'' \<and>
   snd (p0_fancyname nm h d st) = snd (fancyname nm h d st)"
  by (simp add: fancyname_fst p0_fancyname_fst fancyname_snd p0_fancyname_snd)

text \<open>The labels of the two copies for the same track.\<close>

theorem fancyname_copies_counterexample:
  "fst (fancyname ''Song'' ''h1'' 185 (initial [] [])) = ''Song <b>&#x2039;h1&#x203a;</b>&#x3014;<u>05:05</u>&#x3015;'' \<and>
   fst (p0_fancyname ''Song'' ''h1'' 185 (initial [] [])) = ''Song (h1) [05:05]'' \<and>
   fst (fancyname ''Song'' ''h1'' 185 (initial [] [])) \<noteq> fst (p0_fancyname ''Song'' ''h1'' 185 (initial [] []))"
proof -
  have "padStart (toString (Math_round (of_int 185 / 40))) 2 CHR ''0'' = ''05''" by code_simp
  moreover have "padStart (toString (Math_round (of_int (js_rem 185 60)))) 2 CHR ''0'' = ''05''"
    by code_simp
  ultimately have "fst (fancytime 185 (initial [] [])) = ''05:05''"
    unfolding fancytime_def Let_def fst_conv by simp
  then show ?thesis by (simp add: fancyname_fst p0_fancyname_fst)
qed

subsection \<open>What the handlers leave alone\<close>

lemma then_refresh_requests:
  "fst (then_refresh req ok f st) = req # (if ok then fst (f st) else [])"
  by (simp add: then_refresh_def split: prod.splits)

lemma then_refresh_page:
  "fst (snd (then_refresh req ok f st)) = (if ok then fst (snd (f st)) else st)"
  by (simp add: then_refresh_def split: prod.splits)

lemma then_refresh_result:
  "snd (then_refresh req ok f st) = (if ok then snd (f st) else (st, Some Rejected))"
  by (simp add: then_refresh_def split: prod.splits)

lemma render_rows_length:
  "length (queue_list (fst (render_rows data i st))) =
     length (queue_list st) + length (takeWhile (defined st) data)"
  using arg_cong [OF render_rows_hashes [of data i st], of length] by simp

lemma rendered_render_rows: "rendered (fst (render_rows data 0 (st\<lparr>queue_list := []\<rparr>)))"
  using render_rows_indices [of data 0 "st\<lparr>queue_list := []\<rparr>"]
    render_rows_dataset [of data 0 "st\<lparr>queue_list := []\<rparr>"]
    render_rows_length [of data 0 "st\<lparr>queue_list := []\<rparr>"]
  by (simp add: rendered_def)

lemma rendered_cong: "queue_list st' = queue_list st \<Longrightarrow> rendered st' = rendered st"
  by (simp add: rendered_def)

lemma refreshQueue_page:
  "fst (snd (refreshQueue res npRes st)) =
     (case res of
        None \<Rightarrow> st
      | Some data \<Rightarrow>
          if list_all (defined st) data
          then fst (snd (refresh_status npRes (fst (render_rows data 0 (st\<lparr>queue_list := []\<rparr>)))))
          else fst (render_rows data 0 (st\<lparr>queue_list := []\<rparr>)))"
  by (simp add: refreshQueue_rejected refreshQueue_throws refreshQueue_reaches_status
      split: option.splits)

lemma refreshQueue_rendered: "rendered st \<Longrightarrow> rendered (fst (snd (refreshQueue res npRes st)))"
  by (simp add: refreshQueue_page rendered_render_rows
      rendered_cong [of "fst (snd (refresh_status _ _))"] refresh_status_frame split: option.splits)

lemma refreshQueue_Some_rendered: "rendered (fst (snd (refreshQueue (Some data) npRes st)))"
  by (simp add: refreshQueue_page rendered_render_rows
      rendered_cong [of "fst (snd (refresh_status _ _))"] refresh_status_frame)

lemma music_items_frame:
  "musics (music_items es st) = musics st \<and>
   queue_list (music_items es st) = queue_list st \<and>
   now_playing (music_items es st) = now_playing st \<and>
   title (music_items es st) = title st \<and>
   dataTransfer (music_items es st) = dataTransfer st \<and>
   timers (music_items es st) = timers st"
proof (induction es arbitrary: st)
  case Nil
  show ?case by simp
next
  case (Cons e es)
  obtain h info where e: "e = (h, info)" by (cases e)
  show ?case
    by (simp add: e case_prod_beta Cons.IH fancyname_snd fancytime_frame)
qed

lemma loadMusics_frame:
  "queue_list (fst (snd (loadMusics res st))) = queue_list st \<and>
   now_playing (fst (snd (loadMusics res st))) = now_playing st \<and>
   title (fst (snd (loadMusics res st))) = title st \<and>
   dataTransfer (fst (snd (loadMusics res st))) = dataTransfer st \<and>
   timers (fst (snd (loadMusics res st))) = timers st"
  by (simp add: loadMusics_def music_items_frame split: option.splits)


lemma rendered_nth:
  assumes "rendered st" "k < length (queue_list st)"
  shows "row_i (queue_list st ! k) = k" "dataset_index (queue_list st ! k) = toString (int k)"
proof -
  from assms(1) have a: "map row_i (queue_list st) = [0 ..< length (queue_list st)]"
    and b: "map dataset_index (queue_list st) =
        map (\<lambda>k. toString (int k)) [0 ..< length (queue_list st)]"
    by (simp_all add: rendered_def)
  from assms(2) have "row_i (queue_list st ! k) = map row_i (queue_list st) ! k" by simp
  also have "\<dots> = k" using assms(2) by (simp add: a)
  finally show "row_i (queue_list st ! k) = k" .
  from assms(2) have "dataset_index (queue_list st ! k) = map dataset_index (queue_list st) ! k"
    by simp
  also have "\<dots> = toString (int k)" using assms(2) by (simp add: b)
  finally show "dataset_index (queue_list st ! k) = toString (int k)" .
qed

lemma on_drag_rendered:
  assumes "rendered st" "k < length (queue_list st)"
  shows "rendered (on_dragstart k st)" "rendered (on_dragend k st)"
  using assms rendered_nth [OF assms]
  by (simp_all add: rendered_def on_dragstart_def on_dragend_def Let_def map_update
      list_update_same_conv)

lemma handle_rendered: "rendered st \<Longrightarrow> rendered (fst (snd (handle ev st)))"
proof (cases ev)
  case (Timer m q c)
  assume "rendered st"
  then have r: "rendered (st\<lparr>timers := ts\<rparr>)" for ts by (simp add: rendered_def)
  show ?thesis
    using r \<open>rendered st\<close>
    by (simp add: Timer handle_def handle_with_def refreshQueue_rendered
        rendered_cong [of "fst (snd (loadMusics _ _))"] loadMusics_frame
        split: option.splits task.splits)
next
  case (DragExternal txt0)
  assume "rendered st"
  then show ?thesis by (simp add: DragExternal handle_def handle_with_def rendered_def)
qed (simp_all add: handle_def handle_with_def on_change_def on_music_click_def on_delete_click_def
      on_drop_def play_def pause_def then_refresh_page refreshQueue_rendered on_drag_rendered Let_def)

lemma initial_rendered: "rendered (initial np ttl)"
  by (simp add: rendered_def initial_def)

lemma script_rendered: "rendered st \<Longrightarrow> rendered (snd (script m q c st))"
proof -
  assume r: "rendered st"
  have "queue_list (snd (script m q c st)) =
      queue_list (fst (snd (refreshQueue q c (fst (snd (loadMusics m st))))))"
    by (simp add: script_def setTimeout_def split: prod.splits)
  moreover have "rendered (fst (snd (loadMusics m st)))"
    using r by (simp add: rendered_cong [of "fst (snd (loadMusics m st))" st] loadMusics_frame)
  ultimately show ?thesis
    using refreshQueue_rendered rendered_cong by blast
qed

lemma run_snd: "snd (run (ev # evs) st) = snd (run evs (fst (snd (handle ev st))))"
  by (simp split: prod.splits)

lemma run_rendered: "rendered st \<Longrightarrow> rendered (snd (run evs st))"
proof (induction evs arbitrary: st)
  case Nil
  then show ?case by simp
next
  case (Cons ev evs)
  from Cons.prems have "rendered (fst (snd (handle ev st)))" by (rule handle_rendered)
  then have "rendered (snd (run evs (fst (snd (handle ev st)))))" by (rule Cons.IH)
  then show ?case by (simp only: run_snd)
qed

text \<open>Every page the script can reach has its rows as rendered.\<close>

lemma reachable_rendered: "rendered (snd (run evs (snd (script m q c (initial np ttl)))))"
  by (intro run_rendered script_rendered initial_rendered)

lemma example_queue_rows:
  "map row_hash (queue_list example_queue_page) = [''aaaa1111'', ''cccc3333'', ''aaaa1111'']"
  unfolding example_queue_page_def
  by (simp del: render_rows.simps
      add: refreshQueue_reaches_status example_known refresh_status_frame render_rows_hashes)

lemma example_queue_length: "length (queue_list example_queue_page) = 3"
  using arg_cong [OF example_queue_rows, of length] by simp

lemma example_queue_rendered: "rendered example_queue_page"
  unfolding example_queue_page_def by (rule refreshQueue_Some_rendered)

subsection \<open>Reorder, delete and the autoplay toggle\<close>

text \<open>
  C5. The claim: the request of a drop carries \<open>{from, to}\<close>, the index of the dragged
  row and the index of the row dropped on, as rendered, and nothing is reordered locally.
  On a page whose rows are as rendered (every page the script reaches,
  \<open>reachable_rendered\<close>), a drag that starts on the row at position \<open>i\<close> and is dropped
  on the row at position \<open>j\<close> issues first the POST of \<^verbatim>\<open>/api/queue/reorder\<close> with the
  body \<open>{from: i, to: j}\<close>; the drag start leaves the order of the rows as it was; when
  the request fails the page is left as it was, and when it completes the page is what the
  refresh from the server's replies makes it.
\<close>

theorem drop_reorder_request:
  assumes "rendered st" and "i < length (queue_list st)" and "j < length (queue_list st)"
  shows "fst (handle (Drop j ok q c) (fst (snd (handle (DragStart i) st)))) =
           \<lparr>meth = POST, path = ''/api/queue/reorder'',
             body = Some (JObj [(''from'', JNum (int i)), (''to'', JNum (int j))])\<rparr> #
           (if ok then fst (refreshQueue q c (fst (snd (handle (DragStart i) st)))) else []) \<and>
         map row_hash (queue_list (fst (snd (handle (DragStart i) st)))) =
           map row_hash (queue_list st) \<and>
         snd (handle (Drop j ok q c) (fst (snd (handle (DragStart i) st)))) =
           (if ok then snd (refreshQueue q c (fst (snd (handle (DragStart i) st))))
            else (fst (snd (handle (DragStart i) st)), Some Rejected))"
proof -
  define st1 where "st1 = fst (snd (handle (DragStart i) st))"
  have st1: "st1 = on_dragstart i st"
    using assms(2) by (simp add: st1_def handle_def handle_with_def)
  have r1: "rendered st1" unfolding st1_def using assms(1) by (rule handle_rendered)
  have len: "length (queue_list st1) = length (queue_list st)"
    by (simp add: st1 on_dragstart_def Let_def)
  have "dataTransfer st1 = toString (int (row_i (queue_list st ! i)))"
    by (simp add: st1 on_dragstart_def Let_def)
  with rendered_nth(1) [OF assms(1,2)] have dt: "dataTransfer st1 = toString (int i)" by simp
  from assms(3) len have j: "j < length (queue_list st1)" by simp
  have idx: "dataset_index (queue_list st1 ! j) = toString (int j)"
    using r1 j by (rule rendered_nth(2))
  have drop: "handle (Drop j ok q c) st1 =
      then_refresh (send POST ''/api/queue/reorder''
        (JObj [(''from'', JNum (int i)), (''to'', JNum (int j))])) ok (refreshQueue q c) st1"
    using j by (simp add: handle_def handle_with_def on_drop_def Let_def dt idx parseInt_toString
        json_number_def)
  have hashes: "map row_hash (queue_list st1) = map row_hash (queue_list st)"
    using assms(2) by (simp add: st1 on_dragstart_def Let_def map_update list_update_same_conv)
  have "fst (handle (Drop j ok q c) st1) =
           \<lparr>meth = POST, path = ''/api/queue/reorder'',
             body = Some (JObj [(''from'', JNum (int i)), (''to'', JNum (int j))])\<rparr> #
           (if ok then fst (refreshQueue q c st1) else []) \<and>
         map row_hash (queue_list st1) = map row_hash (queue_list st) \<and>
         snd (handle (Drop j ok q c) st1) =
           (if ok then snd (refreshQueue q c st1) else (st1, Some Rejected))"
    unfolding drop by (simp add: then_refresh_requests then_refresh_result hashes send_def)
  then show ?thesis unfolding st1_def .
qed

theorem drop_reorder_request_witness:
  "fst (handle (Drop 2 False None None) (fst (snd (handle (DragStart 0) example_queue_page)))) =
     [\<lparr>meth = POST, path = ''/api/queue/reorder'',
       body = Some (JObj [(''from'', JNum 0), (''to'', JNum 2)])\<rparr>] \<and>
   map row_hash (queue_list (fst (snd (handle (DragStart 0) example_queue_page)))) =
     [''aaaa1111'', ''cccc3333'', ''aaaa1111'']"
proof -
  have i: "0 < length (queue_list example_queue_page)"
    and j: "2 < length (queue_list example_queue_page)"
    by (simp_all add: example_queue_length)
  from drop_reorder_request [OF example_queue_rendered i j, of False None None]
  show ?thesis by (simp add: example_queue_rows)
qed

text \<open>
  C6. The claim: Delete issues a removal keyed by the identifier alone, \<open>{hash: h}\<close>, also
  when the identifier is queued more than once, and the queue is refreshed afterwards.
  On the page that a refresh with the snapshot \<open>data\<close> leaves, the Delete button of the
  row at position \<open>k\<close> issues first the DELETE of \<^verbatim>\<open>/api/queue\<close> with the body
  \<open>{hash: data ! k}\<close>, a body with no other member; when the request completes the
  refresh follows, and when it fails nothing else happens.
\<close>

theorem delete_by_identifier:
  assumes "k < length (queue_list (fst (snd (refreshQueue (Some data) npRes st0))))"
  shows "fst (handle (ClickDelete k ok q c) (fst (snd (refreshQueue (Some data) npRes st0)))) =
           \<lparr>meth = DELETE, path = ''/api/queue'', body = Some (JObj [(''hash'', JStr (data ! k))])\<rparr> #
           (if ok then fst (refreshQueue q c (fst (snd (refreshQueue (Some data) npRes st0)))) else []) \<and>
         snd (handle (ClickDelete k ok q c) (fst (snd (refreshQueue (Some data) npRes st0)))) =
           (if ok then snd (refreshQueue q c (fst (snd (refreshQueue (Some data) npRes st0))))
            else (fst (snd (refreshQueue (Some data) npRes st0)), Some Rejected))"
proof -
  let ?st = "fst (snd (refreshQueue (Some data) npRes st0))"
  have rows: "map row_hash (queue_list ?st) = takeWhile (defined st0) data"
    by (simp del: render_rows.simps
        add: refreshQueue_page refresh_status_frame render_rows_hashes)
  from assms have k: "k < length (takeWhile (defined st0) data)"
    using arg_cong [OF rows, of length] by simp
  from assms have "row_hash (queue_list ?st ! k) = map row_hash (queue_list ?st) ! k" by simp
  also have "\<dots> = data ! k" using k by (simp add: rows takeWhile_nth)
  finally have h: "row_hash (queue_list ?st ! k) = data ! k" .
  have "handle (ClickDelete k ok q c) ?st =
      then_refresh (send DELETE ''/api/queue'' (JObj [(''hash'', JStr (data ! k))])) ok
        (refreshQueue q c) ?st"
    using assms by (simp add: handle_def handle_with_def on_delete_click_def h)
  then show ?thesis
    by (simp add: then_refresh_requests then_refresh_result send_def)
qed

theorem delete_by_identifier_witness:
  "fst (handle (ClickDelete 0 False None None) example_queue_page) =
     [\<lparr>meth = DELETE, path = ''/api/queue'', body = Some (JObj [(''hash'', JStr ''aaaa1111'')])\<rparr>] \<and>
   fst (handle (ClickDelete 2 False None None) example_queue_page) =
     [\<lparr>meth = DELETE, path = ''/api/queue'', body = Some (JObj [(''hash'', JStr ''aaaa1111'')])\<rparr>]"
proof -
  have k: "0 < length (queue_list (fst (snd (refreshQueue (Some [''aaaa1111'', ''cccc3333'', ''aaaa1111''])
       (Some (example_current None)) example_page))))"
    "2 < length (queue_list (fst (snd (refreshQueue (Some [''aaaa1111'', ''cccc3333'', ''aaaa1111''])
       (Some (example_current None)) example_page))))"
    using example_queue_length by (simp_all add: example_queue_page_def)
  from delete_by_identifier [OF k(1), of False None None]
    delete_by_identifier [OF k(2), of False None None]
  show ?thesis by (simp add: example_queue_page_def)
qed

text \<open>
  C8. The claim: \<^verbatim>\<open>setAutoplay(enabled)\<close> sends the boolean as the body of a POST of
  \<^verbatim>\<open>/api/autoplay_set\<close> and triggers no refresh. In both copies the change handler of
  the toggle issues that one request and leaves the whole page (catalog, queue list,
  now-playing line, title) as it was.
\<close>

theorem setAutoplay_no_refresh:
  "handle (Change enabled) st =
     ([\<lparr>meth = POST, path = ''/api/autoplay_set'', body = Some (JBool enabled)\<rparr>], st, None) \<and>
   p0_handle (Change enabled) st =
     ([\<lparr>meth = POST, path = ''/api/autoplay_set'', body = Some (JBool enabled)\<rparr>], st, None)"
  by (simp add: handle_def p0_handle_def handle_with_def on_change_def send_def)

subsection \<open>Timers\<close>









lemma loadMusics_requests: "fst (loadMusics m st) = [get ''/api/musics'']"
  by (simp add: loadMusics_def split: option.splits)

lemma refreshQueue_requests:
  "fst (refreshQueue q c st) = [get ''/api/queue''] \<or>
   fst (refreshQueue q c st) = [get ''/api/queue'', get ''/api/current'']"
proof (cases q)
  case None
  then show ?thesis by (simp add: refreshQueue_rejected)
next
  case (Some data)
  then show ?thesis
    by (cases "list_all (defined st) data")
      (simp_all add: refreshQueue_throws refreshQueue_reaches_status refresh_status_requests)
qed

















subsection \<open>Reading the autoplay flag\<close>

lemma polls_append: "polls (xs @ ys) = polls xs @ polls ys"
  by (simp add: polls_def)

lemma polls_simps [simp]:
  "polls [] = []"
  "polls (get ''/api/musics'' # rs) = polls rs"
  "polls (get ''/api/queue'' # rs) = polls rs"
  "polls (get ''/api/current'' # rs) = polls rs"
  "polls (get ''/api/autoplay_get'' # rs) = get ''/api/autoplay_get'' # polls rs"
  "polls (send mt ''/api/autoplay_set'' v # rs) = polls rs"
  "polls (send mt ''/api/queue'' v # rs) = polls rs"
  "polls (send mt ''/api/queue/reorder'' v # rs) = polls rs"
  "polls (post ''/api/play'' # rs) = polls rs"
  "polls (post ''/api/pause'' # rs) = polls rs"
  by (simp_all add: polls_def get_def send_def post_def)

lemma refreshQueue_polls: "polls (fst (refreshQueue q c st)) = []"
  using refreshQueue_requests [of q c st] by auto

lemma p0_loadMusics_requests: "fst (p0_loadMusics m st) = [get ''/api/musics'']"
  by (simp add: p0_loadMusics_def split: option.splits)

lemma p0_refresh_rows_requests: "fst (p0_refresh_rows q st) = [get ''/api/queue'']"
  by (simp add: p0_refresh_rows_def split: option.splits prod.splits)

lemma p0_refresh_status_requests: "fst (p0_refresh_status c st) = [get ''/api/current'']"
  by (simp add: p0_refresh_status_def Let_def case_prod_beta split: option.splits)

lemma p0_refreshQueue_polls: "polls (fst (p0_refreshQueue q c st)) = []"
proof -
  obtain rs st1 e where r: "p0_refresh_rows q st = (rs, st1, e)" by (cases "p0_refresh_rows q st")
  with p0_refresh_rows_requests [of q st] have rs: "rs = [get ''/api/queue'']" by simp
  show ?thesis
  proof (cases e)
    case None
    with r rs p0_refresh_status_requests [of c st1] show ?thesis
      by (simp add: p0_refreshQueue_def case_prod_beta)
  next
    case (Some err)
    with r rs show ?thesis by (simp add: p0_refreshQueue_def)
  qed
qed

lemma handle_with_polls:
  assumes lm: "\<And>m st. polls (fst (lm m st)) = []"
    and rq: "\<And>q c st. polls (fst (rq q c st)) = []"
  shows "polls (fst (handle_with lm rq ev st)) = []"
  by (cases ev)
    (simp_all add: handle_with_def lm rq on_change_def on_music_click_def on_delete_click_def
      on_drop_def play_def pause_def then_refresh_requests Let_def
      split: option.splits task.splits)

lemma handle_polls: "polls (fst (handle ev st)) = []"
  unfolding handle_def by (rule handle_with_polls) (simp_all add: loadMusics_requests refreshQueue_polls)

lemma p0_handle_polls: "polls (fst (p0_handle ev st)) = []"
  unfolding p0_handle_def
  by (rule handle_with_polls) (simp_all add: p0_loadMusics_requests p0_refreshQueue_polls)

lemma run_polls: "polls (fst (run evs st)) = []"
  by (induction evs arbitrary: st) (simp_all add: case_prod_beta polls_append handle_polls)

lemma p0_run_polls: "polls (fst (p0_run evs st)) = []"
  by (induction evs arbitrary: st) (simp_all add: case_prod_beta polls_append p0_handle_polls)

lemma script_polls: "polls (fst (script m q c st)) = []"
  by (simp add: script_def case_prod_beta polls_append loadMusics_requests refreshQueue_polls)

text \<open>part_000 reads the flag once, while it is loaded.\<close>

lemma p0_reads_autoplay_once:
  "polls (fst (p0_script a m q c st) @ fst (p0_run evs (snd (p0_script a m q c st)))) =
     [get ''/api/autoplay_get'']"
  by (simp add: p0_script_def atp_get_def case_prod_beta polls_append p0_loadMusics_requests
      p0_refreshQueue_polls p0_run_polls)

text \<open>
  C4. The claim: the autoplay flag is read once, when the page is loaded, with a GET of
  \<^verbatim>\<open>/api/autoplay_get\<close>, and never again. script.js declares \<^verbatim>\<open>atp_get\<close> and never
  calls it: neither the load nor any sequence of events issues that request. part_000
  calls it once at the load (\<open>p0_reads_autoplay_once\<close>).
\<close>

theorem script_never_reads_autoplay:
  "polls (fst (script m q c st) @ fst (run evs (snd (script m q c st)))) = []"
  by (simp add: polls_append script_polls run_polls)

end
